theory Spec2Isabelle
  imports Complex_Main "HOL-Library.Word" "HOL-Library.Signed_Division"
begin

unbundle bit_operations_syntax

section \<open>Machine types\<close>

text \<open>
  The C++ source computes with \<open>int\<close> (32 bits), \<open>int32\<close>, \<open>uint32\<close> and
  \<open>crl::time\<close> (a signed 64-bit count of milliseconds). They are words here: \<open>+\<close>,
  \<open>-\<close> and \<open>*\<close> wrap around (the two's complement result the compiled code gives
  where C++ leaves signed overflow undefined), \<open>sint\<close> reads the signed value and
  \<open>\<le>s\<close>, \<open><s\<close> compare signed values. The \<open>float64\<close> sizes and opacities are
  reals. The host is little-endian, as the header's \<open>memcpy\<close> assumes.
\<close>

type_synonym int32 = "32 word"
type_synonym uint32 = "32 word"
type_synonym crl_time = "64 word"
type_synonym byte = "8 word"

text \<open>C++ integer division truncates towards zero.\<close>

definition cdiv :: "'a::len word \<Rightarrow> 'a word \<Rightarrow> 'a word" where
  "cdiv a b = word_of_int (sint a sdiv sint b)"

definition crem :: "'a::len word \<Rightarrow> 'a word \<Rightarrow> 'a word" where
  "crem a b = word_of_int (sint a smod sint b)"

text \<open>
  \<open>Expects\<close> and \<open>Assert\<close> terminate the process when their condition is false:
  the outcome \<open>Abort\<close>.
\<close>

datatype 'a outcome = Abort | Returned 'a

definition kVersion :: uint32 where "kVersion = 1"
definition kFramesPerRow :: int32 where "kFramesPerRow = 10"
definition kMaxCacheSize :: nat where "kMaxCacheSize = 5 * 1024 * 1024"
definition kDefaultFrameDuration :: crl_time where "kDefaultFrameDuration = 33"
definition kDefaultFramesCount :: int32 where "kDefaultFramesCount = 60"
definition kDefaultCanvasSize :: int32 where "kDefaultCanvasSize = 100"

section \<open>The platform\<close>

text \<open>
  Memory is the platform's. \<open>QImage(width, height, format)\<close> is the null image when
  Qt cannot hold an image of that size (its size computation overflows or the allocation
  fails). \<open>std::vector::reserve\<close> throws, and the program terminates, when the
  storage cannot be had; the constructor of lib_base's \<open>BufferedRandom\<close> allocates its
  buffer the same way. Which requests are served is a parameter of the model: the
  images by format, width and height, the buffers by what they hold and how many.
\<close>

datatype Format = Format_Invalid | Format_ARGB32_Premultiplied | Format_Grayscale8 | Format_Other

datatype buffer = RandomBuffer int32 | ParticleVector int32 | SpriteVector int32

record Platform =
  image_allocated :: "Format \<Rightarrow> int32 \<Rightarrow> int32 \<Rightarrow> bool"
  buffer_allocated :: "buffer \<Rightarrow> bool"

section \<open>Descriptor and particles\<close>

text \<open>
  \<open>SpoilerMessDescriptor\<close> is declared in \<open>ui/effects/spoiler_mess.h\<close>; its fields
  and their types are the ones the source reads.
\<close>

record SpoilerMessDescriptor =
  particleFadeInDuration :: crl_time
  particleShownDuration :: crl_time
  particleFadeOutDuration :: crl_time
  particleSizeMin :: real
  particleSizeMax :: real
  particleSpritesCount :: int32
  particlesCount :: int32
  canvasSize :: int32
  framesCount :: int32
  frameDuration :: crl_time

record Particle =
  p_start :: crl_time
  p_spriteIndex :: int32
  p_x :: int32
  p_y :: int32

text \<open>
  \<open>base::RandomIndex(count, random)\<close> belongs to lib_base. The value it draws is a
  parameter (\<open>draw count\<close>); its precondition \<open>count > 0\<close> is the abort it is there.
\<close>

definition RandomIndex :: "int32 \<Rightarrow> (int32 \<Rightarrow> int32) \<Rightarrow> int32 outcome" where
  "RandomIndex count draw = (if 0 <s count then Returned (draw count) else Abort)"

text \<open>
  The start offset: \<open>index * framesCount\<close> is an \<open>int\<close> product, widened to
  \<open>crl::time\<close> for the product with \<open>frameDuration\<close> and the division.
\<close>

definition particle_start :: "SpoilerMessDescriptor \<Rightarrow> int32 \<Rightarrow> crl_time" where
  "particle_start descriptor index =
     cdiv (scast (index * framesCount descriptor) * frameDuration descriptor)
       (scast (particlesCount descriptor))"

text \<open>
  \<open>random k\<close> is the draw of the \<open>k\<close>-th call of \<open>RandomIndex\<close>; \<open>calls\<close> counts
  the calls made before this particle.
\<close>

definition GenerateParticle ::
  "SpoilerMessDescriptor \<Rightarrow> int32 \<Rightarrow> (nat \<Rightarrow> int32 \<Rightarrow> int32) \<Rightarrow> nat \<Rightarrow> Particle outcome" where
  "GenerateParticle descriptor index random calls =
     (case RandomIndex (particleSpritesCount descriptor) (random calls) of
        Abort \<Rightarrow> Abort
      | Returned si \<Rightarrow>
     (case RandomIndex (canvasSize descriptor) (random (calls + 1)) of
        Abort \<Rightarrow> Abort
      | Returned px \<Rightarrow>
     (case RandomIndex (canvasSize descriptor) (random (calls + 2)) of
        Abort \<Rightarrow> Abort
      | Returned py \<Rightarrow>
          Returned \<lparr>p_start = particle_start descriptor index,
            p_spriteIndex = si, p_x = px, p_y = py\<rparr>)))"

section \<open>Painting one particle\<close>

text \<open>The calls made on the \<open>QPainter\<close>, in order.\<close>

datatype paint_call =
    SetClipRect int32 int32 int32 int32
  | Translate int32 int32
  | SetOpacity real
  | DrawImage int32 int32 int32

text \<open>
  \<open>int(x)\<close> for a \<open>float64\<close>: the value is truncated towards zero. C++ leaves the
  conversion undefined when the truncated value is outside \<open>int\<close>; the conversion
  instruction of x86-64 then gives \<open>INT_MIN\<close>, which is the value here.
\<close>

definition int_of_float64 :: "real \<Rightarrow> int32" where
  "int_of_float64 r =
     (let t = (if 0 \<le> r then \<lfloor>r\<rfloor> else \<lceil>r\<rceil>)
      in if - 2147483648 \<le> t \<and> t \<le> 2147483647 then word_of_int t else - 2147483648)"

definition spriteSize :: "SpoilerMessDescriptor \<Rightarrow> int32" where
  "spriteSize descriptor = 2 + int_of_float64 (real_of_int \<lceil>particleSizeMax descriptor\<rceil>)"

definition singleDuration :: "SpoilerMessDescriptor \<Rightarrow> crl_time" where
  "singleDuration descriptor =
     particleFadeInDuration descriptor
     + particleShownDuration descriptor
     + particleFadeOutDuration descriptor"

definition fullDuration :: "SpoilerMessDescriptor \<Rightarrow> crl_time" where
  "fullDuration descriptor = scast (framesCount descriptor) * frameDuration descriptor"

definition opacity_at :: "SpoilerMessDescriptor \<Rightarrow> crl_time \<Rightarrow> real" where
  "opacity_at descriptor time =
     (if time <s particleFadeInDuration descriptor
      then real_of_int (sint time) / real_of_int (sint (particleFadeInDuration descriptor))
      else if singleDuration descriptor - particleFadeOutDuration descriptor <s time
      then real_of_int (sint (singleDuration descriptor - time))
        / real_of_int (sint (particleFadeOutDuration descriptor))
      else 1)"

definition paintOneAt :: "SpoilerMessDescriptor \<Rightarrow> Particle \<Rightarrow> crl_time \<Rightarrow> paint_call list" where
  "paintOneAt descriptor particle time =
     (let size = canvasSize descriptor;
          sprite = p_spriteIndex particle;
          x = p_x particle;
          y = p_y particle
      in if time \<le>s 0 \<or> singleDuration descriptor \<le>s time then []
         else [SetOpacity (opacity_at descriptor time), DrawImage x y sprite]
           @ (if size <s x + spriteSize descriptor
              then [DrawImage (x - size) y sprite]
                @ (if size <s y + spriteSize descriptor
                   then [DrawImage x (y - size) sprite, DrawImage (x - size) (y - size) sprite]
                   else [])
              else if size <s y + spriteSize descriptor
              then [DrawImage x (y - size) sprite]
              else []))"

definition paintOne :: "SpoilerMessDescriptor \<Rightarrow> Particle \<Rightarrow> crl_time \<Rightarrow> paint_call list" where
  "paintOne descriptor particle now =
     paintOneAt descriptor particle (now - p_start particle)
     @ paintOneAt descriptor particle (now + fullDuration descriptor - p_start particle)"


section \<open>Sprites\<close>

text \<open>
  \<open>GenerateSprite\<close> draws a rounded rectangle with \<open>QPainter\<close>; the model keeps the
  geometry it computes, its precondition and whether the sprite's image exists (on a
  null image the painter draws nothing, and nothing is drawn of it later).
\<close>

record Sprite =
  s_size :: int32
  s_allocated :: bool
  s_width :: real
  s_height :: real
  s_radius :: real

definition GenerateSprite ::
  "Platform \<Rightarrow> SpoilerMessDescriptor \<Rightarrow> int32 \<Rightarrow> int32 \<Rightarrow> Sprite outcome" where
  "GenerateSprite platform descriptor index size' =
     (if \<not> (0 \<le>s index \<and> index <s particleSpritesCount descriptor) then Abort
      else
        let count = particleSpritesCount descriptor;
            middle = cdiv count 2;
            minimum = particleSizeMin descriptor;
            delta = particleSizeMax descriptor - minimum;
            w = (if index <s middle
                 then minimum + delta * real_of_int (sint (middle - index))
                   / real_of_int (sint middle)
                 else minimum);
            h = (if middle <s index
                 then minimum + delta * real_of_int (sint (index - middle))
                   / real_of_int (sint (count - 1 - middle))
                 else minimum)
        in Returned \<lparr>s_size = size',
             s_allocated = (0 <s size'
               \<and> image_allocated platform Format_ARGB32_Premultiplied size' size'),
             s_width = w, s_height = h, s_radius = minimum / 2\<rparr>)"

section \<open>Images\<close>

text \<open>
  A \<open>QImage\<close>: its format, its size and its scanlines (the bytes of each line, without
  the padding at the end of a line). A pixel of an ARGB32 image is a \<open>uint32\<close>, stored
  least significant byte first.
\<close>

record QImage =
  q_format :: Format
  q_width :: int32
  q_height :: int32
  q_lines :: "byte list list"

definition le32 :: "uint32 \<Rightarrow> byte list" where
  "le32 w = [ucast w, ucast (drop_bit 8 w), ucast (drop_bit 16 w), ucast (drop_bit 24 w)]"

text \<open>
  \<open>QImage(width, height, format)\<close> followed by \<open>fill(Qt::transparent)\<close>. Qt gives the
  null image (of size 0 by 0, without pixels) when a side is not positive and when it
  cannot hold the image.
\<close>

definition null_image :: QImage where
  "null_image = \<lparr>q_format = Format_Invalid, q_width = 0, q_height = 0, q_lines = []\<rparr>"

definition new_image :: "Platform \<Rightarrow> int32 \<Rightarrow> int32 \<Rightarrow> Format \<Rightarrow> nat \<Rightarrow> QImage" where
  "new_image platform w h fmt depth =
     (if 0 <s w \<and> 0 <s h \<and> image_allocated platform fmt w h
      then \<lparr>q_format = fmt, q_width = w, q_height = h,
             q_lines = replicate (unat h) (replicate (depth * unat w) 0)\<rparr>
      else null_image)"

text \<open>
  What the painter leaves in the image is Qt's: \<open>raster sprites calls x y\<close> is the pixel
  at \<open>(x, y)\<close> after the calls. The image keeps its size.
\<close>

definition painted ::
  "(Sprite list \<Rightarrow> paint_call list \<Rightarrow> nat \<Rightarrow> nat \<Rightarrow> uint32)
    \<Rightarrow> Sprite list \<Rightarrow> paint_call list \<Rightarrow> QImage \<Rightarrow> QImage" where
  "painted raster sprites calls img =
     img\<lparr>q_lines :=
       map (\<lambda>y. concat (map (\<lambda>x. le32 (raster sprites calls x y)) [0..<unat (q_width img)]))
         [0..<unat (q_height img)]\<rparr>"

section \<open>The cached atlas\<close>

definition smin :: "'a::len word \<Rightarrow> 'a word \<Rightarrow> 'a word" where
  "smin a b = (if b <s a then b else a)"

definition atlas_columns :: "int32 \<Rightarrow> int32" where
  "atlas_columns frames = smin frames kFramesPerRow"

definition atlas_rows :: "int32 \<Rightarrow> int32" where
  "atlas_rows frames = cdiv (frames + kFramesPerRow - 1) kFramesPerRow"

record SpoilerMessCached =
  m_image :: QImage
  m_frameDuration :: crl_time
  m_framesCount :: int32
  m_canvasSize :: int32

definition SpoilerMessCached_new ::
  "QImage \<Rightarrow> int32 \<Rightarrow> crl_time \<Rightarrow> int32 \<Rightarrow> SpoilerMessCached outcome" where
  "SpoilerMessCached_new img framesCount' frameDuration' canvasSize' =
     (if \<not> 0 <s frameDuration' then Abort
      else if \<not> 0 <s framesCount' then Abort
      else if \<not> 0 <s canvasSize' then Abort
      else if \<not> (q_width img = atlas_columns framesCount' * canvasSize'
              \<and> q_height img = atlas_rows framesCount' * canvasSize') then Abort
      else Returned \<lparr>m_image = img, m_frameDuration = frameDuration',
             m_framesCount = framesCount', m_canvasSize = canvasSize'\<rparr>)"

section \<open>Generation\<close>

text \<open>
  A loop \<open>for (auto i = 0; i != n; ++i)\<close> ends: the distance from \<open>i\<close> to \<open>n\<close>
  shrinks at every step, also when \<open>n\<close> is negative and \<open>i\<close> wraps around.
\<close>

lemma loop_measure: "i \<noteq> n \<Longrightarrow> unat (n - (i + 1)) < unat (n - i)" for i n :: "'a::len word"
proof -
  assume "i \<noteq> n"
  then have "n - i \<noteq> 0" by simp
  then have "unat (n - i - 1) < unat (n - i)" by (rule measure_unat)
  then show ?thesis by (simp only: diff_diff_eq add.commute)
qed

function particles_loop ::
  "SpoilerMessDescriptor \<Rightarrow> (nat \<Rightarrow> int32 \<Rightarrow> int32) \<Rightarrow> int32 \<Rightarrow> Particle list
    \<Rightarrow> Particle list outcome" where
  "particles_loop descriptor random i particles =
     (if i = particlesCount descriptor then Returned particles
      else case GenerateParticle descriptor i random (3 * length particles) of
             Abort \<Rightarrow> Abort
           | Returned p \<Rightarrow> particles_loop descriptor random (i + 1) (particles @ [p]))"
  by pat_completeness auto
termination
  by (relation "measure (\<lambda>(descriptor, random, i, particles). unat (particlesCount descriptor - i))")
    (simp_all add: loop_measure)

function sprites_loop ::
  "Platform \<Rightarrow> SpoilerMessDescriptor \<Rightarrow> int32 \<Rightarrow> int32 \<Rightarrow> Sprite list
    \<Rightarrow> Sprite list outcome" where
  "sprites_loop platform descriptor size' i sprites =
     (if i = particleSpritesCount descriptor then Returned sprites
      else case GenerateSprite platform descriptor i size' of
             Abort \<Rightarrow> Abort
           | Returned s \<Rightarrow> sprites_loop platform descriptor size' (i + 1) (sprites @ [s]))"
  by pat_completeness auto
termination
  by (relation "measure (\<lambda>(platform, descriptor, size', i, sprites).
        unat (particleSpritesCount descriptor - i))")
    (simp_all add: loop_measure)

text \<open>
  The frames: one tile a frame, row by row. The inner loop stops after the last frame;
  \<open>frame\<close> is kept from one row to the next.
\<close>

definition paint_tile ::
  "SpoilerMessDescriptor \<Rightarrow> Particle list \<Rightarrow> int32 \<Rightarrow> int32 \<Rightarrow> int32 \<Rightarrow> paint_call list" where
  "paint_tile descriptor particles x y frame =
     (let size = canvasSize descriptor;
          time = scast frame * frameDuration descriptor
      in [SetClipRect (x * size) (y * size) size size, Translate (x * size) (y * size)]
         @ concat (map (\<lambda>particle. paintOne descriptor particle time) particles)
         @ [Translate (- (x * size)) (- (y * size))])"

function paint_columns ::
  "SpoilerMessDescriptor \<Rightarrow> Particle list \<Rightarrow> int32 \<Rightarrow> int32 \<Rightarrow> int32 \<Rightarrow> paint_call list
    \<Rightarrow> int32 \<times> paint_call list" where
  "paint_columns descriptor particles y x frame calls =
     (if x = atlas_columns (framesCount descriptor) then (frame, calls)
      else
        let calls' = calls @ paint_tile descriptor particles x y frame;
            frame' = frame + 1
        in if framesCount descriptor \<le>s frame' then (frame', calls')
           else paint_columns descriptor particles y (x + 1) frame' calls')"
  by pat_completeness auto
termination
  by (relation "measure (\<lambda>(descriptor, particles, y, x, frame, calls).
        unat (atlas_columns (framesCount descriptor) - x))")
    (simp_all add: loop_measure)

function paint_rows ::
  "SpoilerMessDescriptor \<Rightarrow> Particle list \<Rightarrow> int32 \<Rightarrow> int32 \<Rightarrow> paint_call list
    \<Rightarrow> paint_call list" where
  "paint_rows descriptor particles y frame calls =
     (if y = atlas_rows (framesCount descriptor) then calls
      else case paint_columns descriptor particles y 0 frame calls of
             (frame', calls') \<Rightarrow> paint_rows descriptor particles (y + 1) frame' calls')"
  by pat_completeness auto
termination
  by (relation "measure (\<lambda>(descriptor, particles, y, frame, calls).
        unat (atlas_rows (framesCount descriptor) - y))")
    (simp_all add: loop_measure)

text \<open>
  \<open>raster\<close> is Qt's painter and \<open>random\<close> the draws of lib_base's random source;
  the rest is the source's. The random source's buffer (of \<open>count * 3\<close> values, an
  \<open>int\<close> product) and the two vectors are asked of the platform before they are
  filled. The loop over \<open>particles[index]\<close> visits the particles generated before,
  in order. When the atlas image is null the painter draws nothing, and the constructor's
  check of the image's size aborts.
\<close>

definition GenerateSpoilerMess ::
  "Platform \<Rightarrow> (Sprite list \<Rightarrow> paint_call list \<Rightarrow> nat \<Rightarrow> nat \<Rightarrow> uint32)
    \<Rightarrow> (nat \<Rightarrow> int32 \<Rightarrow> int32) \<Rightarrow> SpoilerMessDescriptor \<Rightarrow> SpoilerMessCached outcome" where
  "GenerateSpoilerMess platform raster random descriptor =
     (if \<not> 0 <s framesCount descriptor then Abort
      else if \<not> 0 <s frameDuration descriptor then Abort
      else if \<not> 0 <s particlesCount descriptor then Abort
      else if \<not> 0 <s canvasSize descriptor then Abort
      else if \<not> particleSizeMin descriptor \<le> particleSizeMax descriptor then Abort
      else if \<not> 0 < particleSizeMin descriptor then Abort
      else
        let frames = framesCount descriptor;
            rows = atlas_rows frames;
            columns = atlas_columns frames;
            size = canvasSize descriptor;
            count = particlesCount descriptor;
            w = size * columns;
            h = size * rows
        in if \<not> singleDuration descriptor <s fullDuration descriptor then Abort
           else if \<not> buffer_allocated platform (RandomBuffer (count * 3)) then Abort
           else if \<not> buffer_allocated platform (ParticleVector (particlesCount descriptor))
           then Abort
           else
             case particles_loop descriptor random 0 [] of
               Abort \<Rightarrow> Abort
             | Returned particles \<Rightarrow>
             if \<not> buffer_allocated platform (SpriteVector (particleSpritesCount descriptor))
             then Abort
             else
             (case sprites_loop platform descriptor (spriteSize descriptor) 0 [] of
                Abort \<Rightarrow> Abort
              | Returned sprites \<Rightarrow>
                  SpoilerMessCached_new
                    (painted raster sprites (paint_rows descriptor particles 0 0 [])
                      (new_image platform w h Format_ARGB32_Premultiplied 4))
                    frames (frameDuration descriptor) size))"

declare particles_loop.simps [simp del] sprites_loop.simps [simp del]
  paint_columns.simps [simp del] paint_rows.simps [simp del]

section \<open>Frame accessors\<close>

record QRect =
  r_x :: int32
  r_y :: int32
  r_width :: int32
  r_height :: int32

text \<open>A frame: the atlas image (the source holds a pointer to it) and the tile's rectangle.\<close>

record SpoilerMessFrame =
  f_image :: QImage
  f_source :: QRect

definition frame :: "SpoilerMessCached \<Rightarrow> int32 \<Rightarrow> SpoilerMessFrame" where
  "frame cached index =
     (let row = cdiv index kFramesPerRow;
          column = index - row * kFramesPerRow
      in \<lparr>f_image = m_image cached,
          f_source = \<lparr>r_x = column * m_canvasSize cached, r_y = row * m_canvasSize cached,
            r_width = m_canvasSize cached, r_height = m_canvasSize cached\<rparr>\<rparr>)"

text \<open>
  \<open>frame()\<close> reads the clock: \<open>now\<close> is the value of \<open>crl::now()\<close>. The division
  and the remainder are computed in \<open>crl::time\<close> and the result is narrowed to \<open>int\<close>.
\<close>

definition frame_now :: "SpoilerMessCached \<Rightarrow> crl_time \<Rightarrow> SpoilerMessFrame" where
  "frame_now cached now =
     frame cached (scast (crem (cdiv now (m_frameDuration cached)) (scast (m_framesCount cached))))"

section \<open>Serialization\<close>

text \<open>
  The header is copied to and from the first 24 bytes with \<open>memcpy\<close>: six 32-bit
  fields, least significant byte first.
\<close>

record Header =
  h_version :: uint32
  h_dataLength :: uint32
  h_dataHash :: uint32
  h_framesCount :: int32
  h_canvasSize :: int32
  h_frameDuration :: int32

record Validator =
  v_frameDuration :: crl_time
  v_framesCount :: int32
  v_canvasSize :: int32

definition sizeof_Header :: nat where
  "sizeof_Header = 24"

definition read_le32 :: "byte list \<Rightarrow> uint32" where
  "read_le32 bytes =
     ucast (bytes ! 0) OR push_bit 8 (ucast (bytes ! 1))
     OR push_bit 16 (ucast (bytes ! 2)) OR push_bit 24 (ucast (bytes ! 3))"

definition header_bytes :: "Header \<Rightarrow> byte list" where
  "header_bytes header =
     le32 (h_version header) @ le32 (h_dataLength header) @ le32 (h_dataHash header)
     @ le32 (h_framesCount header) @ le32 (h_canvasSize header)
     @ le32 (h_frameDuration header)"

definition parse_header :: "byte list \<Rightarrow> Header" where
  "parse_header bytes =
     \<lparr>h_version = read_le32 (drop 0 bytes), h_dataLength = read_le32 (drop 4 bytes),
      h_dataHash = read_le32 (drop 8 bytes), h_framesCount = read_le32 (drop 12 bytes),
      h_canvasSize = read_le32 (drop 16 bytes), h_frameDuration = read_le32 (drop 20 bytes)\<rparr>"

text \<open>
  The PNG codec is Qt's and \<open>XXH32\<close> is xxHash's: both are parameters
  (\<open>png_save\<close>, \<open>png_load\<close>, \<open>xxh32\<close>). An image that \<open>loadFromData\<close> returns
  is not null: its sides are positive, it has one scanline a row, and a \<open>Grayscale8\<close>
  scanline has one byte a pixel. How large an image the decoder returns is the
  decoder's.
\<close>

definition qimage_valid :: "QImage \<Rightarrow> bool" where
  "qimage_valid img \<longleftrightarrow>
     0 < sint (q_width img) \<and> 0 < sint (q_height img)
     \<and> length (q_lines img) = unat (q_height img)
     \<and> (q_format img = Format_Grayscale8 \<longrightarrow>
          (\<forall>line \<in> set (q_lines img). length line = unat (q_width img)))"

definition loadFromData :: "(byte list \<Rightarrow> QImage option) \<Rightarrow> byte list \<Rightarrow> QImage option" where
  "loadFromData png_load bytes =
     (case png_load bytes of
        None \<Rightarrow> None
      | Some img \<Rightarrow> if qimage_valid img then Some img else None)"

text \<open>
  \<open>serialize\<close> keeps the first byte of every 4-byte pixel; \<open>FromSerialized\<close> writes
  the byte into the four channels of the pixel. Both write through \<open>bits()\<close> of an
  image they have just constructed, without asking whether it is null: \<open>bits()\<close> of
  the null image is the null pointer, and the first pixel written through it ends the
  process. (The \<open>Assert\<close> of \<open>FromSerialized\<close> on \<open>bytesPerLine\<close> holds for every
  ARGB32 image, whose lines are multiples of 4 bytes, and for the null image, whose
  lines have 0 bytes.)
\<close>

definition isNull :: "QImage \<Rightarrow> bool" where
  "isNull img \<longleftrightarrow> q_format img = Format_Invalid"

definition pixel_of_byte :: "byte \<Rightarrow> uint32" where
  "pixel_of_byte b =
     push_bit 24 (ucast b) OR push_bit 16 (ucast b) OR push_bit 8 (ucast b) OR ucast b"

definition to_grayscale :: "Platform \<Rightarrow> QImage \<Rightarrow> QImage outcome" where
  "to_grayscale platform img =
     (let w = q_width img;
          h = q_height img;
          grayscale = new_image platform w h Format_Grayscale8 1
      in if \<not> isNull grayscale
         then Returned (grayscale\<lparr>q_lines :=
                map (\<lambda>y. map (\<lambda>x. q_lines img ! y ! (4 * x)) [0..<unat w]) [0..<unat h]\<rparr>)
         else if h \<noteq> 0 \<and> w \<noteq> 0 then Abort
         else Returned grayscale)"

definition from_grayscale :: "Platform \<Rightarrow> QImage \<Rightarrow> QImage outcome" where
  "from_grayscale platform grayscale =
     (let w = q_width grayscale;
          h = q_height grayscale;
          img = new_image platform w h Format_ARGB32_Premultiplied 4
      in if \<not> isNull img
         then Returned (img\<lparr>q_lines :=
                map (\<lambda>y. concat (map (\<lambda>x. le32 (pixel_of_byte (q_lines grayscale ! y ! x)))
                       [0..<unat w]))
                  [0..<unat h]\<rparr>)
         else if h \<noteq> 0 \<and> w \<noteq> 0 then Abort
         else Returned img)"

text \<open>
  \<open>dataLength\<close> is the payload's size narrowed to \<open>uint32\<close>, \<open>frameDuration\<close> the
  duration narrowed to \<open>int32\<close> (after the \<open>Expects\<close> on its range). \<open>save\<close>
  writes nothing for the null image.
\<close>

definition serialize ::
  "Platform \<Rightarrow> (QImage \<Rightarrow> byte list) \<Rightarrow> (byte list \<Rightarrow> uint32) \<Rightarrow> SpoilerMessCached
    \<Rightarrow> byte list outcome" where
  "serialize platform png_save xxh32 cached =
     (if \<not> m_frameDuration cached <s 2147483647 then Abort
      else
        case to_grayscale platform (m_image cached) of
          Abort \<Rightarrow> Abort
        | Returned grayscale \<Rightarrow>
            let payload = (if isNull grayscale then [] else png_save grayscale);
                header = \<lparr>h_version = kVersion,
                  h_dataLength = word_of_nat (length payload),
                  h_dataHash = xxh32 payload,
                  h_framesCount = m_framesCount cached,
                  h_canvasSize = m_canvasSize cached,
                  h_frameDuration = scast (m_frameDuration cached)\<rparr>
            in Returned (header_bytes header @ payload))"

text \<open>
  \<open>skip + header.dataLength\<close> is a \<open>size_t\<close> sum (64 bits): it is a sum of naturals
  here. \<open>QSize(columns, rows) * canvasSize\<close> is Qt's product of a size and a \<open>qreal\<close>,
  where the products are exact, rounded to \<open>int\<close> and compared with the image's
  sides: a product equals a side when the exact values are equal (a product outside
  \<open>int\<close> equals no side).
\<close>

definition FromSerialized ::
  "Platform \<Rightarrow> (byte list \<Rightarrow> QImage option) \<Rightarrow> (byte list \<Rightarrow> uint32) \<Rightarrow> byte list
    \<Rightarrow> Validator option \<Rightarrow> SpoilerMessCached option outcome" where
  "FromSerialized platform png_load xxh32 data validator =
     (if length data \<le> sizeof_Header then Returned None
      else
        let header = parse_header data;
            payload = take (unat (h_dataLength header)) (drop sizeof_Header data)
        in if h_version header \<noteq> kVersion
              \<or> h_canvasSize header \<le>s 0
              \<or> h_framesCount header \<le>s 0
              \<or> h_frameDuration header \<le>s 0
              \<or> (case validator of
                    None \<Rightarrow> False
                  | Some v \<Rightarrow> v_frameDuration v \<noteq> scast (h_frameDuration header)
                      \<or> v_framesCount v \<noteq> h_framesCount header
                      \<or> v_canvasSize v \<noteq> h_canvasSize header)
              \<or> sizeof_Header + unat (h_dataLength header) \<noteq> length data
              \<or> xxh32 payload \<noteq> h_dataHash header
           then Returned None
           else
             case loadFromData png_load payload of
               None \<Rightarrow> Returned None
             | Some grayscale \<Rightarrow>
                 if q_format grayscale \<noteq> Format_Grayscale8 then Returned None
                 else
                   let count = h_framesCount header;
                       rows = atlas_rows count;
                       columns = atlas_columns count
                   in if sint (q_width grayscale) \<noteq> sint columns * sint (h_canvasSize header)
                         \<or> sint (q_height grayscale) \<noteq> sint rows * sint (h_canvasSize header)
                      then Returned None
                      else
                        case from_grayscale platform grayscale of
                          Abort \<Rightarrow> Abort
                        | Returned img \<Rightarrow>
                        (case SpoilerMessCached_new img count
                                (scast (h_frameDuration header)) (h_canvasSize header) of
                           Abort \<Rightarrow> Abort
                         | Returned cached \<Rightarrow> Returned (Some cached)))"

section \<open>The cache file\<close>

text \<open>
  What the source asks of \<open>Integration\<close>, \<open>QDir\<close> and \<open>QFile\<close>: the base folder,
  the contents of the cache file when it opens for reading, and whether \<open>mkpath\<close> and
  opening for writing succeed. The two functions return their result and the file
  operations they made; \<open>QFile::write\<close> may fail, its result is not read.
\<close>

record CacheEnvironment =
  emojiCacheFolder :: string
  cache_file :: "byte list option"
  mkpath_succeeds :: bool
  open_for_write_succeeds :: bool

datatype io_event =
    OpenRead string
  | ReadAll "byte list"
  | MkPath string
  | OpenWrite string
  | Write "byte list"

definition DefaultMaskCacheFolder :: "CacheEnvironment \<Rightarrow> string" where
  "DefaultMaskCacheFolder env =
     (if emojiCacheFolder env = [] then [] else emojiCacheFolder env @ ''/spoiler'')"

definition DefaultMaskCachePath :: "string \<Rightarrow> string" where
  "DefaultMaskCachePath folder = folder @ ''/mask''"

definition ReadDefaultMask ::
  "Platform \<Rightarrow> (byte list \<Rightarrow> QImage option) \<Rightarrow> (byte list \<Rightarrow> uint32) \<Rightarrow> CacheEnvironment
    \<Rightarrow> Validator option \<Rightarrow> SpoilerMessCached option outcome \<times> io_event list" where
  "ReadDefaultMask platform png_load xxh32 env validator =
     (let folder = DefaultMaskCacheFolder env
      in if folder = [] then (Returned None, [])
         else
           case cache_file env of
             None \<Rightarrow> (Returned None, [OpenRead (DefaultMaskCachePath folder)])
           | Some content \<Rightarrow>
               if length content \<le> kMaxCacheSize
               then (FromSerialized platform png_load xxh32 content validator,
                      [OpenRead (DefaultMaskCachePath folder), ReadAll content])
               else (Returned None, [OpenRead (DefaultMaskCachePath folder)]))"

definition WriteDefaultMask ::
  "Platform \<Rightarrow> (QImage \<Rightarrow> byte list) \<Rightarrow> (byte list \<Rightarrow> uint32) \<Rightarrow> CacheEnvironment
    \<Rightarrow> SpoilerMessCached \<Rightarrow> unit outcome \<times> io_event list" where
  "WriteDefaultMask platform png_save xxh32 env cached =
     (let folder = DefaultMaskCacheFolder env
      in if \<not> mkpath_succeeds env then (Returned (), [MkPath folder])
         else
           case serialize platform png_save xxh32 cached of
             Abort \<Rightarrow> (Abort, [MkPath folder])
           | Returned bytes \<Rightarrow>
               if open_for_write_succeeds env \<and> length bytes \<le> kMaxCacheSize
               then (Returned (),
                      [MkPath folder, OpenWrite (DefaultMaskCachePath folder), Write bytes])
               else (Returned (), [MkPath folder, OpenWrite (DefaultMaskCachePath folder)]))"

text \<open>
  \<open>PrepareDefaultSpoilerMess\<close> runs \<open>ReadDefaultMask\<close>, \<open>GenerateSpoilerMess\<close> and
  \<open>WriteDefaultMask\<close> on a background thread and publishes the atlas through an atomic
  pointer, a mutex and a condition variable, where \<open>DefaultSpoilerMask\<close> waits for it.
  The threads are outside this sequential model.
\<close>

section \<open>Descriptors the specification calls valid\<close>

text \<open>
  The invariants the specification puts on a descriptor: counts, durations and sizes
  positive, the largest size not below the smallest, and a timeline (frames times frame
  duration) longer than one particle's lifetime. They are read on the mathematical
  values of the fields.
\<close>

definition descriptor_invariants :: "SpoilerMessDescriptor \<Rightarrow> bool" where
  "descriptor_invariants d \<longleftrightarrow>
     0 < sint (framesCount d) \<and> 0 < sint (frameDuration d) \<and> 0 < sint (canvasSize d)
     \<and> 0 < sint (particlesCount d) \<and> 0 < sint (particleSpritesCount d)
     \<and> 0 < sint (particleFadeInDuration d) \<and> 0 < sint (particleShownDuration d)
     \<and> 0 < sint (particleFadeOutDuration d)
     \<and> 0 < particleSizeMin d \<and> particleSizeMin d \<le> particleSizeMax d
     \<and> sint (particleFadeInDuration d) + sint (particleShownDuration d)
         + sint (particleFadeOutDuration d)
       < sint (framesCount d) * sint (frameDuration d)"

text \<open>
  The source computes the atlas size in \<open>int\<close> and the timeline in \<open>crl::time\<close>.
  \<open>atlas_fits\<close> and \<open>timeline_fits\<close> say that the mathematical values fit these types.
\<close>

definition atlas_fits :: "int32 \<Rightarrow> int32 \<Rightarrow> bool" where
  "atlas_fits frames size' \<longleftrightarrow>
     sint frames + 9 \<le> 2147483647
     \<and> min (sint frames) 10 * sint size' \<le> 2147483647
     \<and> \<lceil>real_of_int (sint frames) / 10\<rceil> * sint size' \<le> 2147483647"

definition timeline_fits :: "SpoilerMessDescriptor \<Rightarrow> bool" where
  "timeline_fits d \<longleftrightarrow> sint (framesCount d) * sint (frameDuration d) \<le> 9223372036854775807"

definition descriptor_fits :: "SpoilerMessDescriptor \<Rightarrow> bool" where
  "descriptor_fits d \<longleftrightarrow> atlas_fits (framesCount d) (canvasSize d) \<and> timeline_fits d"

text \<open>
  The platform serves a descriptor when it provides what \<open>GenerateSpoilerMess\<close> asks
  for: the buffer of the random source, the vectors of particles and sprites, and the
  atlas image.
\<close>

definition platform_serves :: "Platform \<Rightarrow> SpoilerMessDescriptor \<Rightarrow> bool" where
  "platform_serves platform d \<longleftrightarrow>
     buffer_allocated platform (RandomBuffer (particlesCount d * 3))
     \<and> buffer_allocated platform (ParticleVector (particlesCount d))
     \<and> buffer_allocated platform (SpriteVector (particleSpritesCount d))
     \<and> image_allocated platform Format_ARGB32_Premultiplied
         (canvasSize d * atlas_columns (framesCount d))
         (canvasSize d * atlas_rows (framesCount d))"

text \<open>
  Two platforms for the examples: one that serves every request, and one that holds no
  image above \<open>INT_MAX\<close> bytes (one byte a pixel in \<open>Grayscale8\<close>, four otherwise).
\<close>

definition generous_platform :: Platform where
  "generous_platform =
     \<lparr>image_allocated = (\<lambda>fmt w h. True), buffer_allocated = (\<lambda>b. True)\<rparr>"

definition capped_platform :: Platform where
  "capped_platform =
     \<lparr>image_allocated = (\<lambda>fmt w h.
        sint w * sint h * (if fmt = Format_Grayscale8 then 1 else 4) \<le> 2147483647),
      buffer_allocated = (\<lambda>b. True)\<rparr>"

text \<open>
  The descriptor of \<open>PrepareDefaultSpoilerMess\<close> at scale 100% and pixel ratio 1; it
  does not set \<open>particleShownDuration\<close>, which keeps its initial value 0. The example
  of the specification sets it.
\<close>

definition default_descriptor :: SpoilerMessDescriptor where
  "default_descriptor =
     \<lparr>particleFadeInDuration = 200, particleShownDuration = 0, particleFadeOutDuration = 200,
      particleSizeMin = 3 / 2, particleSizeMax = 2, particleSpritesCount = 5,
      particlesCount = 2000, canvasSize = kDefaultCanvasSize,
      framesCount = kDefaultFramesCount, frameDuration = kDefaultFrameDuration\<rparr>"

definition example_descriptor :: SpoilerMessDescriptor where
  "example_descriptor = default_descriptor\<lparr>particleShownDuration := 100\<rparr>"

definition huge_canvas_descriptor :: SpoilerMessDescriptor where
  "huge_canvas_descriptor = example_descriptor\<lparr>canvasSize := 300000000\<rparr>"

text \<open>A canvas of 100000000 pixels: an atlas of 1000000000 by 600000000 pixels.\<close>

definition large_canvas_descriptor :: SpoilerMessDescriptor where
  "large_canvas_descriptor = example_descriptor\<lparr>canvasSize := 100000000\<rparr>"

text \<open>
  A painter that leaves every pixel transparent and a random source that always draws
  index 0: the simplest instances of the two external parameters.
\<close>

definition blank_raster :: "Sprite list \<Rightarrow> paint_call list \<Rightarrow> nat \<Rightarrow> nat \<Rightarrow> uint32" where
  "blank_raster sprites calls x y = 0"

definition zero_draws :: "nat \<Rightarrow> int32 \<Rightarrow> int32" where
  "zero_draws k count = 0"

text \<open>
  \<open>index * framesCount\<close> is an \<open>int\<close> product and the product with
  \<open>frameDuration\<close> a \<open>crl::time\<close>: \<open>particles_fit\<close> says that the mathematical
  products fit these types for every particle of the descriptor.
\<close>

definition particles_fit :: "SpoilerMessDescriptor \<Rightarrow> bool" where
  "particles_fit d \<longleftrightarrow>
     (sint (particlesCount d) - 1) * sint (framesCount d) \<le> 2147483647
     \<and> (sint (particlesCount d) - 1) * sint (framesCount d) * sint (frameDuration d)
       \<le> 9223372036854775807"

text \<open>
  50000 particles over 50000 frames of one pixel: an atlas of 10 by 5000 pixels.
\<close>

definition many_particles_descriptor :: SpoilerMessDescriptor where
  "many_particles_descriptor =
     example_descriptor\<lparr>particlesCount := 50000, canvasSize := 1, framesCount := 50000\<rparr>"

text \<open>The \<open>drawImage\<close> calls of a list of painter calls: position and sprite.\<close>

fun draw_positions :: "paint_call list \<Rightarrow> (int32 \<times> int32 \<times> int32) list" where
  "draw_positions [] = []"
| "draw_positions (DrawImage x y sprite # calls) = (x, y, sprite) # draw_positions calls"
| "draw_positions (SetClipRect x y w h # calls) = draw_positions calls"
| "draw_positions (Translate x y # calls) = draw_positions calls"
| "draw_positions (SetOpacity opacity # calls) = draw_positions calls"

text \<open>A particle that starts late in the loop, close to the right edge of its tile.\<close>

definition example_particle :: Particle where
  "example_particle = \<lparr>p_start = 1900, p_spriteIndex = 3, p_x = 98, p_y = 50\<rparr>"

text \<open>
  The source adds the sprite's size to the particle's origin in \<open>int\<close>: \<open>sums_fit\<close>
  says that the two mathematical sums are within \<open>int\<close>. A descriptor whose largest
  particle size is 2147483645 has sprites of 2147483647 pixels.
\<close>

definition sums_fit :: "SpoilerMessDescriptor \<Rightarrow> Particle \<Rightarrow> bool" where
  "sums_fit d p \<longleftrightarrow>
     - 2147483648 \<le> sint (p_x p) + sint (spriteSize d)
     \<and> sint (p_x p) + sint (spriteSize d) \<le> 2147483647
     \<and> - 2147483648 \<le> sint (p_y p) + sint (spriteSize d)
     \<and> sint (p_y p) + sint (spriteSize d) \<le> 2147483647"

definition wide_sprite_descriptor :: SpoilerMessDescriptor where
  "wide_sprite_descriptor = example_descriptor\<lparr>particleSizeMax := 2147483645\<rparr>"

text \<open>A rectangle that lies within an image.\<close>

definition rect_within :: "QRect \<Rightarrow> QImage \<Rightarrow> bool" where
  "rect_within rect img \<longleftrightarrow>
     0 \<le> sint (r_x rect) \<and> 0 \<le> sint (r_y rect)
     \<and> sint (r_x rect) + sint (r_width rect) \<le> sint (q_width img)
     \<and> sint (r_y rect) + sint (r_height rect) \<le> sint (q_height img)"

text \<open>An atlas of the default parameters: 60 frames of 100 pixels, 33 ms each.\<close>

definition default_atlas :: SpoilerMessCached where
  "default_atlas =
     \<lparr>m_image = painted blank_raster [] []
        (new_image generous_platform 1000 600 Format_ARGB32_Premultiplied 4),
      m_frameDuration = kDefaultFrameDuration, m_framesCount = kDefaultFramesCount,
      m_canvasSize = kDefaultCanvasSize\<rparr>"

text \<open>
  Ten frames of 429496730 pixels: the width \<open>10 * 429496730\<close> is \<open>2^32 + 4\<close>, which
  is 4 in \<open>int\<close>, so an image of 4 by 429496730 pixels passes the constructor.
\<close>

definition thin_image :: QImage where
  "thin_image =
     \<lparr>q_format = Format_ARGB32_Premultiplied, q_width = 4, q_height = 429496730,
      q_lines = replicate 429496730 (replicate 16 0)\<rparr>"

definition thin_atlas :: SpoilerMessCached where
  "thin_atlas =
     \<lparr>m_image = thin_image, m_frameDuration = 33, m_framesCount = 10,
      m_canvasSize = 429496730\<rparr>"

section \<open>The decoding conditions of the specification\<close>

text \<open>
  The conditions under which the specification says that decoding returns no result,
  in its words: the length, the version, the three sizes, the validator, the payload
  length, the checksum, the image and its size \<open>min(framesCount, 10) * canvasSize\<close> by
  \<open>ceil(framesCount / 10) * canvasSize\<close>.
\<close>

definition spec_rejects ::
  "(byte list \<Rightarrow> QImage option) \<Rightarrow> (byte list \<Rightarrow> uint32) \<Rightarrow> byte list \<Rightarrow> Validator option
    \<Rightarrow> bool" where
  "spec_rejects png_load xxh32 data validator \<longleftrightarrow>
     (let header = parse_header data;
          payload = drop sizeof_Header data;
          frames = sint (h_framesCount header);
          size' = sint (h_canvasSize header)
      in length data \<le> sizeof_Header
         \<or> h_version header \<noteq> kVersion
         \<or> size' \<le> 0 \<or> frames \<le> 0 \<or> sint (h_frameDuration header) \<le> 0
         \<or> (\<exists>v. validator = Some v
              \<and> (v_frameDuration v \<noteq> scast (h_frameDuration header)
                 \<or> v_framesCount v \<noteq> h_framesCount header
                 \<or> v_canvasSize v \<noteq> h_canvasSize header))
         \<or> unat (h_dataLength header) \<noteq> length payload
         \<or> xxh32 payload \<noteq> h_dataHash header
         \<or> (case loadFromData png_load payload of
               None \<Rightarrow> True
             | Some grayscale \<Rightarrow>
                 q_format grayscale \<noteq> Format_Grayscale8
                 \<or> sint (q_width grayscale) \<noteq> min frames 10 * size'
                 \<or> sint (q_height grayscale) \<noteq> \<lceil>real_of_int frames / 10\<rceil> * size'))"

text \<open>The checks \<open>FromSerialized\<close> makes on the header, and the atlas it builds.\<close>

definition header_checks_fail ::
  "(byte list \<Rightarrow> uint32) \<Rightarrow> byte list \<Rightarrow> Validator option \<Rightarrow> bool" where
  "header_checks_fail xxh32 data validator \<longleftrightarrow>
     (let header = parse_header data;
          payload = take (unat (h_dataLength header)) (drop sizeof_Header data)
      in h_version header \<noteq> kVersion
         \<or> h_canvasSize header \<le>s 0
         \<or> h_framesCount header \<le>s 0
         \<or> h_frameDuration header \<le>s 0
         \<or> (case validator of
               None \<Rightarrow> False
             | Some v \<Rightarrow> v_frameDuration v \<noteq> scast (h_frameDuration header)
                 \<or> v_framesCount v \<noteq> h_framesCount header
                 \<or> v_canvasSize v \<noteq> h_canvasSize header)
         \<or> sizeof_Header + unat (h_dataLength header) \<noteq> length data
         \<or> xxh32 payload \<noteq> h_dataHash header)"

text \<open>
  The image a grayscale image decodes to: every byte of a scanline four times, the
  four channels of its pixel.
\<close>

definition expanded :: "QImage \<Rightarrow> QImage" where
  "expanded grayscale =
     \<lparr>q_format = Format_ARGB32_Premultiplied, q_width = q_width grayscale,
      q_height = q_height grayscale,
      q_lines = map (\<lambda>line. concat (map (\<lambda>b. [b, b, b, b]) line)) (q_lines grayscale)\<rparr>"

definition decoded ::
  "(byte list \<Rightarrow> QImage option) \<Rightarrow> byte list \<Rightarrow> SpoilerMessCached" where
  "decoded png_load data =
     \<lparr>m_image = expanded (the (loadFromData png_load (drop sizeof_Header data))),
      m_frameDuration = scast (h_frameDuration (parse_header data)),
      m_framesCount = h_framesCount (parse_header data),
      m_canvasSize = h_canvasSize (parse_header data)\<rparr>"

text \<open>
  \<open>FromSerialized\<close> computes the rows of the atlas as \<open>(count + 9) / 10\<close> in
  \<open>int\<close>: \<open>frames_in_range\<close> says that \<open>count + 9\<close> is within \<open>int\<close> for the
  frame count of the header (a blob without a full header has none). \<open>image_served\<close>
  says that the platform holds the ARGB32 image of the size of the payload's image.
\<close>

definition frames_in_range :: "byte list \<Rightarrow> bool" where
  "frames_in_range data \<longleftrightarrow>
     length data \<le> sizeof_Header \<or> sint (h_framesCount (parse_header data)) \<le> 2147483638"

definition image_served :: "Platform \<Rightarrow> (byte list \<Rightarrow> QImage option) \<Rightarrow> byte list \<Rightarrow> bool" where
  "image_served platform png_load data \<longleftrightarrow>
     (case loadFromData png_load (drop sizeof_Header data) of
        None \<Rightarrow> True
      | Some grayscale \<Rightarrow>
          image_allocated platform Format_ARGB32_Premultiplied
            (q_width grayscale) (q_height grayscale))"

text \<open>
  The four channels of an ARGB32 pixel: blue in bits 0 to 7, green in bits 8 to 15, red
  in bits 16 to 23 and alpha in bits 24 to 31. A pixel is gray when green, red and alpha
  equal blue; a painter is gray when it leaves only such pixels, as white sprites
  painted on a transparent premultiplied image do.
\<close>

definition channel :: "nat \<Rightarrow> uint32 \<Rightarrow> byte" where
  "channel k pixel = ucast (drop_bit (8 * k) pixel)"

definition is_gray :: "uint32 \<Rightarrow> bool" where
  "is_gray pixel \<longleftrightarrow>
     channel 1 pixel = channel 0 pixel \<and> channel 2 pixel = channel 0 pixel
     \<and> channel 3 pixel = channel 0 pixel"

definition gray_painter :: "(Sprite list \<Rightarrow> paint_call list \<Rightarrow> nat \<Rightarrow> nat \<Rightarrow> uint32) \<Rightarrow> bool" where
  "gray_painter raster \<longleftrightarrow> (\<forall>sprites calls x y. is_gray (raster sprites calls x y))"

text \<open>
  The grayscale copy \<open>serialize\<close> encodes: the blue byte of every pixel.
\<close>

definition grayscale_of :: "QImage \<Rightarrow> QImage" where
  "grayscale_of img =
     \<lparr>q_format = Format_Grayscale8, q_width = q_width img, q_height = q_height img,
      q_lines = map (\<lambda>y. map (\<lambda>x. q_lines img ! y ! (4 * x)) [0..<unat (q_width img)])
        [0..<unat (q_height img)]\<rparr>"

text \<open>
  A painter that leaves a checkerboard of opaque white and half-transparent white, and
  a small descriptor: 2 frames of 2 by 2 pixels, an atlas of 4 by 2 pixels.
\<close>

definition checker_raster :: "Sprite list \<Rightarrow> paint_call list \<Rightarrow> nat \<Rightarrow> nat \<Rightarrow> uint32" where
  "checker_raster sprites calls x y = (if even (x + y) then 0xFFFFFFFF else 0x80808080)"

definition small_descriptor :: SpoilerMessDescriptor where
  "small_descriptor =
     example_descriptor\<lparr>particlesCount := 3, canvasSize := 2, framesCount := 2,
       frameDuration := 1000\<rparr>"

definition small_atlas :: SpoilerMessCached where
  "small_atlas =
     \<lparr>m_image = \<lparr>q_format = Format_ARGB32_Premultiplied, q_width = 4, q_height = 2,
        q_lines =
          [[255, 255, 255, 255, 128, 128, 128, 128, 255, 255, 255, 255, 128, 128, 128, 128],
           [128, 128, 128, 128, 255, 255, 255, 255, 128, 128, 128, 128, 255, 255, 255, 255]]\<rparr>,
      m_frameDuration = 1000, m_framesCount = 2, m_canvasSize = 2\<rparr>"

text \<open>
  A lossless stand-in for the PNG codec (width, height and the scanlines, uncompressed)
  and a stand-in for the checksum; they instantiate the parameters in examples.
\<close>

definition raw_save :: "QImage \<Rightarrow> byte list" where
  "raw_save img = le32 (q_width img) @ le32 (q_height img) @ concat (q_lines img)"

definition raw_load :: "byte list \<Rightarrow> QImage option" where
  "raw_load bytes =
     (if length bytes < 8 then None
      else
        let w = read_le32 bytes;
            h = read_le32 (drop 4 bytes);
            body = drop 8 bytes
        in if length body \<noteq> unat w * unat h then None
           else Some \<lparr>q_format = Format_Grayscale8, q_width = w, q_height = h,
                  q_lines = map (\<lambda>y. take (unat w) (drop (y * unat w) body)) [0..<unat h]\<rparr>)"

definition toy_hash :: "byte list \<Rightarrow> uint32" where
  "toy_hash bytes = foldl (\<lambda>h b. h * 31 + ucast b) 0 bytes"

text \<open>A frame duration of \<open>INT32_MAX\<close> milliseconds, and the atlas generated for it.\<close>

definition long_frame_descriptor :: SpoilerMessDescriptor where
  "long_frame_descriptor = example_descriptor\<lparr>frameDuration := 2147483647\<rparr>"

definition long_frame_atlas :: SpoilerMessCached where
  "long_frame_atlas = default_atlas\<lparr>m_frameDuration := 2147483647\<rparr>"

text \<open>A blob of 33 bytes: the header and one white pixel, and the atlas it decodes to.\<close>

definition tiny_blob :: "byte list" where
  "tiny_blob =
     le32 1 @ le32 9 @ le32 (toy_hash [1, 0, 0, 0, 1, 0, 0, 0, 255]) @ le32 1 @ le32 1 @ le32 33
     @ [1, 0, 0, 0, 1, 0, 0, 0, 255]"

definition tiny_atlas :: SpoilerMessCached where
  "tiny_atlas =
     \<lparr>m_image = \<lparr>q_format = Format_ARGB32_Premultiplied, q_width = 1, q_height = 1,
        q_lines = [[255, 255, 255, 255]]\<rparr>,
      m_frameDuration = 33, m_framesCount = 1, m_canvasSize = 1\<rparr>"

text \<open>
  Two blobs whose payload stands for a large image, with the decoder that returns it:
  100 frames of 4634 pixels, an image of 46340 by 46340 pixels (2147395600 bytes in
  \<open>Grayscale8\<close>, four times as many in ARGB32); and 2147483647 frames of 1 pixel, an
  image of 10 by 214748365 pixels.
\<close>

definition large_gray :: QImage where
  "large_gray =
     \<lparr>q_format = Format_Grayscale8, q_width = 46340, q_height = 46340,
      q_lines = replicate 46340 (replicate 46340 0)\<rparr>"

definition load_large :: "byte list \<Rightarrow> QImage option" where
  "load_large bytes = Some large_gray"

definition large_blob :: "byte list" where
  "large_blob = le32 1 @ le32 1 @ le32 (toy_hash [0]) @ le32 100 @ le32 4634 @ le32 33 @ [0]"

definition tall_gray :: QImage where
  "tall_gray =
     \<lparr>q_format = Format_Grayscale8, q_width = 10, q_height = 214748365,
      q_lines = replicate 214748365 (replicate 10 0)\<rparr>"

definition load_tall :: "byte list \<Rightarrow> QImage option" where
  "load_tall bytes = Some tall_gray"

definition tall_blob :: "byte list" where
  "tall_blob = le32 1 @ le32 1 @ le32 (toy_hash [0]) @ le32 2147483647 @ le32 1 @ le32 33 @ [0]"

text \<open>
  The validator of \<open>PrepareDefaultSpoilerMess\<close> at scale 100% and pixel ratio 1, and
  what it asks of the platform: the image of the atlas it describes.
\<close>

definition default_validator :: Validator where
  "default_validator =
     \<lparr>v_frameDuration = kDefaultFrameDuration, v_framesCount = kDefaultFramesCount,
      v_canvasSize = kDefaultCanvasSize\<rparr>"

definition atlas_allocated :: "Platform \<Rightarrow> Validator \<Rightarrow> bool" where
  "atlas_allocated platform v \<longleftrightarrow>
     image_allocated platform Format_ARGB32_Premultiplied
       (atlas_columns (v_framesCount v) * v_canvasSize v)
       (atlas_rows (v_framesCount v) * v_canvasSize v)"

text \<open>A cache file one byte above the ceiling.\<close>

definition oversized_cache :: CacheEnvironment where
  "oversized_cache =
     \<lparr>emojiCacheFolder = ''/cache/emoji'', cache_file = Some (replicate 5242881 0),
      mkpath_succeeds = True, open_for_write_succeeds = True\<rparr>"

section \<open>Arithmetic of the machine types\<close>

lemma sint_mult_fits32:
  fixes a b :: int32
  assumes "- 2147483648 \<le> sint a * sint b" "sint a * sint b \<le> 2147483647"
  shows "sint (a * b) = sint a * sint b"
  using assms by (simp add: sint_word_ariths signed_take_bit_int_eq_self)

lemma sint_mult_fits64:
  fixes a b :: crl_time
  assumes "- 9223372036854775808 \<le> sint a * sint b" "sint a * sint b \<le> 9223372036854775807"
  shows "sint (a * b) = sint a * sint b"
  using assms by (simp add: sint_word_ariths signed_take_bit_int_eq_self)

lemma sint_add_fits32:
  fixes a b :: int32
  assumes "- 2147483648 \<le> sint a + sint b" "sint a + sint b \<le> 2147483647"
  shows "sint (a + b) = sint a + sint b"
  using assms by (simp add: sint_word_ariths signed_take_bit_int_eq_self)

lemma sint_scast_time: "sint (scast (w :: int32) :: crl_time) = sint w"
  by (simp add: sint_up_scast is_up)

lemma sint_bounds32: "- 2147483648 \<le> sint (w :: int32)" "sint (w :: int32) \<le> 2147483647"
  using sint_ge [of w] sint_lt [of w] by simp_all

lemma sint_cdiv_nonneg:
  fixes a b :: "'a::len word"
  assumes "0 \<le> sint a" "0 < sint b"
  shows "sint (cdiv a b) = sint a div sint b"
proof -
  have e: "sint a sdiv sint b = sint a div sint b"
    using assms by (simp add: signed_divide_int_def sgn_if)
  have "0 \<le> sint a div sint b" using assms by (simp add: pos_imp_zdiv_nonneg_iff)
  moreover have "sint a div sint b \<le> sint a"
    using zdiv_mono2 [of "sint a" 1 "sint b"] assms by simp
  moreover have "sint a < 2 ^ (LENGTH('a) - 1)" by (rule sint_lt)
  ultimately show ?thesis
    unfolding cdiv_def e by (simp add: sint_sbintrunc' signed_take_bit_int_eq_self)
qed

lemma sint_kFramesPerRow: "sint kFramesPerRow = 10"
  by (simp add: kFramesPerRow_def)

lemma sint_atlas_columns: "sint (atlas_columns F) = min (sint F) 10"
  by (simp add: atlas_columns_def smin_def word_sless_alt sint_kFramesPerRow)

lemma sint_atlas_rows:
  assumes "0 < sint F" "sint F + 9 \<le> 2147483647"
  shows "sint (atlas_rows F) = (sint F + 9) div 10"
proof -
  have "sint (F + kFramesPerRow - 1) = sint (F + 9)"
    by (simp add: kFramesPerRow_def add.commute)
  also have "\<dots> = sint F + sint (9 :: int32)"
    using assms by (intro sint_add_fits32) simp_all
  finally have "sint (F + kFramesPerRow - 1) = sint F + 9"
    by simp
  then show ?thesis
    using assms by (simp add: atlas_rows_def sint_cdiv_nonneg sint_kFramesPerRow)
qed

lemma particles_loop_returns:
  assumes "0 <s particleSpritesCount d" "0 <s canvasSize d"
  shows "\<exists>ps. particles_loop d random i acc = Returned ps"
  using assms
proof (induction d random i acc rule: particles_loop.induct)
  case (1 descriptor random i particles)
  show ?case
  proof (cases "i = particlesCount descriptor")
    case True
    then show ?thesis by (subst particles_loop.simps) simp
  next
    case False
    obtain p where p: "GenerateParticle descriptor i random (3 * length particles) = Returned p"
      using 1(2,3) by (simp add: GenerateParticle_def RandomIndex_def)
    from 1(1) [OF False p 1(2,3)] obtain ps
      where "particles_loop descriptor random (i + 1) (particles @ [p]) = Returned ps"
      by blast
    then show ?thesis using False p by (subst particles_loop.simps) simp
  qed
qed

lemma sint_succ:
  fixes i n :: int32
  assumes "i <s n"
  shows "sint (i + 1) = sint i + 1"
proof -
  have "sint i < sint n" using assms by (simp add: word_sless_alt)
  then have "sint i + sint (1 :: int32) \<le> 2147483647" using sint_bounds32 [of n] by simp
  moreover have "- 2147483648 \<le> sint i + sint (1 :: int32)" using sint_bounds32 [of i] by simp
  ultimately have "sint (i + 1) = sint i + sint (1 :: int32)" by (intro sint_add_fits32)
  then show ?thesis by simp
qed

lemma sprites_loop_returns:
  assumes "0 \<le>s i" "i \<le>s particleSpritesCount d"
  shows "\<exists>ss. sprites_loop platform d sz i acc = Returned ss"
  using assms
proof (induction platform d sz i acc rule: sprites_loop.induct)
  case (1 platform descriptor size' i sprites)
  show ?case
  proof (cases "i = particleSpritesCount descriptor")
    case True
    then show ?thesis by (subst sprites_loop.simps) simp
  next
    case False
    then have lt: "i <s particleSpritesCount descriptor"
      using 1(3) by (simp add: word_sless_eq)
    then obtain s where s: "GenerateSprite platform descriptor i size' = Returned s"
      using 1(2) by (simp add: GenerateSprite_def Let_def)
    have n: "sint (i + 1) = sint i + 1" using lt by (rule sint_succ)
    have a: "0 \<le>s i + 1" using 1(2) n by (simp add: word_sle_eq)
    have b: "i + 1 \<le>s particleSpritesCount descriptor"
      using lt n by (simp add: word_sle_eq word_sless_alt)
    from 1(1) [OF False s a b] obtain ss
      where "sprites_loop platform descriptor size' (i + 1) (sprites @ [s]) = Returned ss"
      by blast
    then show ?thesis using False s by (subst sprites_loop.simps) simp
  qed
qed

lemma ceiling_tenth: "\<lceil>real_of_int F / 10\<rceil> = (F + 9) div 10"
proof -
  have "\<lceil>real_of_int F / real_of_int 10\<rceil> = - (- F div 10)"
    by (rule ceiling_divide_eq_div)
  then show ?thesis by simp
qed

lemma sint_atlas_width:
  assumes "0 < sint F" "0 < sint cs" "atlas_fits F cs"
  shows "sint (atlas_columns F * cs) = min (sint F) 10 * sint cs"
proof -
  have "0 \<le> min (sint F) 10 * sint cs" using assms by simp
  moreover have "min (sint F) 10 * sint cs \<le> 2147483647"
    using assms(3) unfolding atlas_fits_def by blast
  ultimately have "sint (atlas_columns F * cs) = sint (atlas_columns F) * sint cs"
    by (intro sint_mult_fits32) (simp_all add: sint_atlas_columns)
  then show ?thesis by (simp add: sint_atlas_columns)
qed

lemma sint_atlas_height:
  assumes "0 < sint F" "0 < sint cs" "atlas_fits F cs"
  shows "sint (atlas_rows F * cs) = \<lceil>real_of_int (sint F) / 10\<rceil> * sint cs"
proof -
  define R where "R = \<lceil>real_of_int (sint F) / 10\<rceil>"
  have R: "R = (sint F + 9) div 10" unfolding R_def by (rule ceiling_tenth)
  have f: "sint F + 9 \<le> 2147483647" "R * sint cs \<le> 2147483647"
    using assms(3) unfolding atlas_fits_def R_def by blast+
  have r: "sint (atlas_rows F) = R"
    using assms f R by (simp add: sint_atlas_rows)
  have "0 \<le> R * sint cs" using assms R by simp
  then have "sint (atlas_rows F * cs) = sint (atlas_rows F) * sint cs"
    using f r by (intro sint_mult_fits32) simp_all
  then show ?thesis unfolding R_def [symmetric] using r by simp
qed

lemma generate_returns:
  assumes "0 <s framesCount d" "0 <s frameDuration d" "0 <s particlesCount d"
    "0 <s canvasSize d" "particleSizeMin d \<le> particleSizeMax d" "0 < particleSizeMin d"
    "singleDuration d <s fullDuration d" "0 <s particleSpritesCount d"
    "0 <s atlas_columns (framesCount d) * canvasSize d"
    "0 <s atlas_rows (framesCount d) * canvasSize d"
    "platform_serves platform d"
  shows "\<exists>a. GenerateSpoilerMess platform raster random d = Returned a
    \<and> q_width (m_image a) = atlas_columns (framesCount d) * canvasSize d
    \<and> q_height (m_image a) = atlas_rows (framesCount d) * canvasSize d
    \<and> m_framesCount a = framesCount d \<and> m_frameDuration a = frameDuration d
    \<and> m_canvasSize a = canvasSize d"
proof -
  obtain ps where ps: "particles_loop d random 0 [] = Returned ps"
    using particles_loop_returns [OF assms(8) assms(4)] by blast
  have "0 \<le>s (0 :: int32)" by simp
  moreover have "0 \<le>s particleSpritesCount d" using assms(8) by (simp add: word_sless_eq)
  ultimately obtain ss where ss: "sprites_loop platform d (spriteSize d) 0 [] = Returned ss"
    using sprites_loop_returns by blast
  have w: "canvasSize d * atlas_columns (framesCount d) = atlas_columns (framesCount d) * canvasSize d"
    and h: "canvasSize d * atlas_rows (framesCount d) = atlas_rows (framesCount d) * canvasSize d"
    by (simp_all only: mult.commute)
  show ?thesis
    using assms(1-7,9,10) assms(11) [unfolded platform_serves_def] ps ss
    by (simp add: GenerateSpoilerMess_def Let_def SpoilerMessCached_new_def painted_def
        new_image_def w h)
qed

lemma sint_add_fits64:
  fixes a b :: crl_time
  assumes "- 9223372036854775808 \<le> sint a + sint b" "sint a + sint b \<le> 9223372036854775807"
  shows "sint (a + b) = sint a + sint b"
  using assms by (simp add: sint_word_ariths signed_take_bit_int_eq_self)

lemma sint_fullDuration:
  assumes "0 < sint (framesCount d)" "0 < sint (frameDuration d)" "timeline_fits d"
  shows "sint (fullDuration d) = sint (framesCount d) * sint (frameDuration d)"
proof -
  have "0 \<le> sint (framesCount d) * sint (frameDuration d)" using assms by simp
  then have "sint (scast (framesCount d) * frameDuration d)
      = sint (scast (framesCount d) :: crl_time) * sint (frameDuration d)"
    using assms(3) unfolding timeline_fits_def
    by (intro sint_mult_fits64) (simp_all add: sint_scast_time)
  then show ?thesis by (simp add: fullDuration_def sint_scast_time)
qed

lemma sint_singleDuration:
  assumes "0 \<le> sint (particleFadeInDuration d)" "0 \<le> sint (particleShownDuration d)"
    "0 \<le> sint (particleFadeOutDuration d)"
    "sint (particleFadeInDuration d) + sint (particleShownDuration d)
      + sint (particleFadeOutDuration d) \<le> 9223372036854775807"
  shows "sint (singleDuration d) = sint (particleFadeInDuration d)
    + sint (particleShownDuration d) + sint (particleFadeOutDuration d)"
proof -
  have a: "sint (particleFadeInDuration d + particleShownDuration d)
      = sint (particleFadeInDuration d) + sint (particleShownDuration d)"
    using assms by (intro sint_add_fits64) simp_all
  have "sint (particleFadeInDuration d + particleShownDuration d + particleFadeOutDuration d)
      = sint (particleFadeInDuration d + particleShownDuration d)
        + sint (particleFadeOutDuration d)"
    using assms a by (intro sint_add_fits64) simp_all
  then show ?thesis using a by (simp add: singleDuration_def)
qed

lemma valid_descriptor_returns:
  assumes inv: "descriptor_invariants d" and fits: "descriptor_fits d"
    and serves: "platform_serves platform d"
  shows "\<exists>a. GenerateSpoilerMess platform raster random d = Returned a
    \<and> q_width (m_image a) = atlas_columns (framesCount d) * canvasSize d
    \<and> q_height (m_image a) = atlas_rows (framesCount d) * canvasSize d
    \<and> m_framesCount a = framesCount d \<and> m_frameDuration a = frameDuration d
    \<and> m_canvasSize a = canvasSize d"
proof (rule generate_returns)
  note i = inv [unfolded descriptor_invariants_def]
  have af: "atlas_fits (framesCount d) (canvasSize d)" and tf: "timeline_fits d"
    using fits by (simp_all add: descriptor_fits_def)
  show "0 <s framesCount d" "0 <s frameDuration d" "0 <s particlesCount d" "0 <s canvasSize d"
    "0 <s particleSpritesCount d"
    using i by (simp_all add: word_sless_alt)
  show "particleSizeMin d \<le> particleSizeMax d" "0 < particleSizeMin d" using i by simp_all
  have full: "sint (fullDuration d) = sint (framesCount d) * sint (frameDuration d)"
    using i tf by (intro sint_fullDuration) simp_all
  have "sint (singleDuration d) = sint (particleFadeInDuration d)
    + sint (particleShownDuration d) + sint (particleFadeOutDuration d)"
    using i tf unfolding timeline_fits_def by (intro sint_singleDuration) simp_all
  then show "singleDuration d <s fullDuration d"
    using i full by (simp add: word_sless_alt)
  have p: "0 < sint (framesCount d)" "0 < sint (canvasSize d)" using i by simp_all
  have "0 < min (sint (framesCount d)) 10 * sint (canvasSize d)" using p by simp
  then show "0 <s atlas_columns (framesCount d) * canvasSize d"
    using sint_atlas_width [OF p af] by (simp only: word_sless_alt sint_0)
  have "1 \<le> (sint (framesCount d) + 9) div 10" using p(1) by linarith
  then have "0 < ((sint (framesCount d) + 9) div 10) * sint (canvasSize d)"
    using p(2) by simp
  then have "0 < \<lceil>real_of_int (sint (framesCount d)) / 10\<rceil> * sint (canvasSize d)"
    by (simp only: ceiling_tenth)
  then show "0 <s atlas_rows (framesCount d) * canvasSize d"
    using sint_atlas_height [OF p af] by (simp only: word_sless_alt sint_0)
  show "platform_serves platform d" by (rule serves)
qed

lemma constructor_checks_size:
  assumes "atlas_fits F cs"
    and "sint (q_width img) \<noteq> min (sint F) 10 * sint cs
      \<or> sint (q_height img) \<noteq> \<lceil>real_of_int (sint F) / 10\<rceil> * sint cs"
  shows "SpoilerMessCached_new img F fd cs = Abort"
proof (cases "0 <s fd \<and> 0 <s F \<and> 0 <s cs")
  case False
  then show ?thesis by (auto simp: SpoilerMessCached_new_def)
next
  case True
  then have p: "0 < sint F" "0 < sint cs" by (simp_all add: word_sless_alt)
  have "q_width img \<noteq> atlas_columns F * cs \<or> q_height img \<noteq> atlas_rows F * cs"
    using assms(2) sint_atlas_width [OF p assms(1)] sint_atlas_height [OF p assms(1)]
    by metis
  then show ?thesis by (auto simp: SpoilerMessCached_new_def)
qed

lemmas default_consts = kDefaultCanvasSize_def kDefaultFramesCount_def kDefaultFrameDuration_def

lemma example_invariants: "descriptor_invariants example_descriptor"
  by (simp add: descriptor_invariants_def example_descriptor_def default_descriptor_def default_consts)

lemma example_fits: "descriptor_fits example_descriptor"
  by (simp add: descriptor_fits_def atlas_fits_def timeline_fits_def example_descriptor_def default_descriptor_def default_consts)

lemma generate_aborts_without_image:
  assumes "\<not> (0 <s canvasSize d * atlas_columns (framesCount d)
      \<and> 0 <s canvasSize d * atlas_rows (framesCount d)
      \<and> image_allocated platform Format_ARGB32_Premultiplied
        (canvasSize d * atlas_columns (framesCount d))
        (canvasSize d * atlas_rows (framesCount d)))"
    and "canvasSize d * atlas_columns (framesCount d) \<noteq> 0"
  shows "GenerateSpoilerMess platform raster random d = Abort"
proof -
  have n: "new_image platform (canvasSize d * atlas_columns (framesCount d))
      (canvasSize d * atlas_rows (framesCount d)) Format_ARGB32_Premultiplied 4 = null_image"
    using assms(1) by (auto simp: new_image_def)
  have "SpoilerMessCached_new (painted raster sprites calls null_image) (framesCount d)
      (frameDuration d) (canvasSize d) = Abort" for sprites calls
    using assms(2)
    by (simp add: SpoilerMessCached_new_def painted_def null_image_def mult.commute)
  then show ?thesis
    by (simp add: GenerateSpoilerMess_def Let_def n split: outcome.splits)
qed

lemma particles_loop_aborts:
  assumes "0 <s particlesCount d" "\<not> 0 <s particleSpritesCount d"
  shows "particles_loop d random 0 [] = Abort"
proof -
  have "0 \<noteq> particlesCount d" using assms(1) by auto
  then show ?thesis
    using assms(2)
    by (subst particles_loop.simps) (simp add: GenerateParticle_def RandomIndex_def)
qed

lemma default_descriptor_returns:
  assumes "platform_serves platform default_descriptor"
  shows "\<exists>a. GenerateSpoilerMess platform raster random default_descriptor = Returned a"
proof -
  have "\<exists>a. GenerateSpoilerMess platform raster random default_descriptor = Returned a
    \<and> q_width (m_image a) = atlas_columns (framesCount default_descriptor) * canvasSize default_descriptor
    \<and> q_height (m_image a) = atlas_rows (framesCount default_descriptor) * canvasSize default_descriptor
    \<and> m_framesCount a = framesCount default_descriptor \<and> m_frameDuration a = frameDuration default_descriptor
    \<and> m_canvasSize a = canvasSize default_descriptor"
    by (rule generate_returns [OF _ _ _ _ _ _ _ _ _ _ assms])
      (simp_all add: default_descriptor_def default_consts singleDuration_def
        fullDuration_def atlas_columns_def atlas_rows_def smin_def kFramesPerRow_def cdiv_def
        word_sless_alt)
  then show ?thesis by blast
qed

section \<open>Start offsets\<close>

lemma div_less_bound:
  fixes a b n :: int
  assumes "0 < n" "a < n * b"
  shows "a div n < b"
proof -
  have "n * (a div n) \<le> a"
    using mult_div_mod_eq [of n a] pos_mod_sign [OF assms(1), of a] by linarith
  then have "n * (a div n) < n * b" using assms(2) by linarith
  then show ?thesis using assms(1) by (simp add: mult_less_cancel_left_pos)
qed

lemma gap_bounds:
  fixes a b n :: int
  assumes "0 < n"
  shows "a div n + b div n \<le> (a + b) div n" "(a + b) div n \<le> a div n + b div n + 1"
proof -
  have e: "(a + b) div n = a div n + b div n + (a mod n + b mod n) div n"
    by (rule div_add1_eq)
  have "0 \<le> a mod n + b mod n" using assms by simp
  then have l: "0 \<le> (a mod n + b mod n) div n" using assms by (simp add: pos_imp_zdiv_nonneg_iff)
  have "a mod n + b mod n < n * 2"
    using pos_mod_bound [OF assms, of a] pos_mod_bound [OF assms, of b] by linarith
  then have "(a mod n + b mod n) div n < 2" using assms by (intro div_less_bound)
  then have u: "(a mod n + b mod n) div n \<le> 1" by simp
  show "a div n + b div n \<le> (a + b) div n" using e l by linarith
  show "(a + b) div n \<le> a div n + b div n + 1" using e u by linarith
qed

lemma sint_particle_start:
  assumes n: "0 < sint (particlesCount d)" and f: "0 \<le> sint (framesCount d)"
    and t: "0 \<le> sint (frameDuration d)" and i: "0 \<le> sint i"
    and f32: "sint i * sint (framesCount d) \<le> 2147483647"
    and f64: "sint i * sint (framesCount d) * sint (frameDuration d) \<le> 9223372036854775807"
  shows "sint (particle_start d i)
    = (sint i * sint (framesCount d) * sint (frameDuration d)) div sint (particlesCount d)"
proof -
  have "0 \<le> sint i * sint (framesCount d)" using i f by simp
  then have a: "sint (i * framesCount d) = sint i * sint (framesCount d)"
    using f32 by (intro sint_mult_fits32) simp_all
  have "0 \<le> sint i * sint (framesCount d) * sint (frameDuration d)" using i f t by simp
  then have b: "sint (scast (i * framesCount d) * frameDuration d)
      = sint i * sint (framesCount d) * sint (frameDuration d)"
    using f64 sint_mult_fits64 [of "scast (i * framesCount d)" "frameDuration d"]
    by (simp add: sint_scast_time a)
  have "sint (cdiv (scast (i * framesCount d) * frameDuration d) (scast (particlesCount d)))
      = sint (scast (i * framesCount d) * frameDuration d)
        div sint (scast (particlesCount d) :: crl_time)"
    using i f t n by (intro sint_cdiv_nonneg) (simp_all add: b sint_scast_time)
  then show ?thesis by (simp add: particle_start_def b sint_scast_time)
qed

lemma sint_of_nat32:
  assumes "int k \<le> 2147483647"
  shows "sint (word_of_nat k :: int32) = int k"
proof -
  have "sint (word_of_int (int k) :: int32) = int k"
    using assms by (simp only: sint_sbintrunc') (simp add: signed_take_bit_int_eq_self)
  moreover have "(word_of_int (int k) :: int32) = word_of_nat (nat (int k))"
    by (rule word_of_int_nat) simp
  ultimately show ?thesis by simp
qed

lemma particles_loop_starts:
  assumes "particles_loop d random i acc = Returned ps"
    and "i = word_of_nat (length acc)"
    and "\<forall>k<length acc. p_start (acc ! k) = particle_start d (word_of_nat k)"
  shows "length ps = length acc + unat (particlesCount d - i)
    \<and> (\<forall>k<length ps. p_start (ps ! k) = particle_start d (word_of_nat k))"
  using assms
proof (induction d random i acc rule: particles_loop.induct)
  case (1 descriptor random i particles)
  show ?case
  proof (cases "i = particlesCount descriptor")
    case True
    then have "ps = particles" using 1(2) by (subst (asm) particles_loop.simps) simp
    then show ?thesis using True 1(4) by simp
  next
    case False
    from 1(2) False obtain p where
      p: "GenerateParticle descriptor i random (3 * length particles) = Returned p"
      and r: "particles_loop descriptor random (i + 1) (particles @ [p]) = Returned ps"
      by (subst (asm) particles_loop.simps) (auto split: outcome.splits)
    have ps: "p_start p = particle_start descriptor i"
      using p by (auto simp: GenerateParticle_def split: outcome.splits)
    have n: "i + 1 = word_of_nat (length (particles @ [p]))" using 1(3) by simp
    have inv: "\<forall>k<length (particles @ [p]).
        p_start ((particles @ [p]) ! k) = particle_start descriptor (word_of_nat k)"
      using 1(3,4) ps by (auto simp: nth_append less_Suc_eq)
    have m: "unat (particlesCount descriptor - i) = Suc (unat (particlesCount descriptor - (i + 1)))"
    proof -
      have "particlesCount descriptor - i \<noteq> 0" using False by simp
      then have "unat (particlesCount descriptor - i - 1) = unat (particlesCount descriptor - i) - 1"
        and "0 < unat (particlesCount descriptor - i)"
        by (simp_all add: unat_minus_one unat_gt_0)
      then show ?thesis by (simp add: diff_diff_eq add.commute)
    qed
    from 1(1) [OF False p r n inv] show ?thesis using m by simp
  qed
qed

lemma unat_positive:
  fixes w :: int32
  assumes "0 \<le> sint w"
  shows "unat w = nat (sint w)"
proof -
  have s: "sint w = signed_take_bit 31 (uint w)" by (simp add: sint_uint)
  have "uint w < 2 ^ 31"
  proof (rule ccontr)
    assume "\<not> uint w < 2 ^ 31"
    then have "signed_take_bit 31 (uint w) \<le> uint w - 2 ^ Suc 31"
      by (intro signed_take_bit_int_less_eq) simp
    moreover have "uint w < 2 ^ 32" using uint_lt2p [of w] by simp
    ultimately show False using assms s by simp
  qed
  moreover have "- (2 ^ 31) \<le> uint w"
  proof -
    have "- (2 ^ 31) \<le> (0 :: int)" by simp
    also have "0 \<le> uint w" by simp
    finally show ?thesis .
  qed
  ultimately have "signed_take_bit 31 (uint w) = uint w"
    by (intro signed_take_bit_int_eq_self)
  then have "sint w = uint w" using s by simp
  then show ?thesis by simp
qed

lemma start_of_index:
  assumes inv: "descriptor_invariants d" and fits: "particles_fit d"
    and k: "int k < sint (particlesCount d)"
  shows "sint (particle_start d (word_of_nat k))
    = (int k * sint (framesCount d) * sint (frameDuration d)) div sint (particlesCount d)"
proof -
  note i = inv [unfolded descriptor_invariants_def]
  have p: "0 < sint (particlesCount d)" "0 \<le> sint (framesCount d)" "0 \<le> sint (frameDuration d)"
    using i by simp_all
  have "int k \<le> 2147483647" using k sint_bounds32 [of "particlesCount d"] by linarith
  then have w: "sint (word_of_nat k :: int32) = int k" by (rule sint_of_nat32)
  have le: "int k \<le> sint (particlesCount d) - 1" using k by simp
  have a: "int k * sint (framesCount d) \<le> (sint (particlesCount d) - 1) * sint (framesCount d)"
    using le p(2) by (rule mult_right_mono)
  then have "int k * sint (framesCount d) * sint (frameDuration d)
      \<le> (sint (particlesCount d) - 1) * sint (framesCount d) * sint (frameDuration d)"
    using p(3) by (rule mult_right_mono)
  then have f64: "int k * sint (framesCount d) * sint (frameDuration d) \<le> 9223372036854775807"
    using fits unfolding particles_fit_def by linarith
  have f32: "int k * sint (framesCount d) \<le> 2147483647"
    using a fits unfolding particles_fit_def by linarith
  have "sint (particle_start d (word_of_nat k))
    = (sint (word_of_nat k :: int32) * sint (framesCount d) * sint (frameDuration d))
      div sint (particlesCount d)"
    using p f32 f64 by (intro sint_particle_start) (simp_all add: w)
  then show ?thesis by (simp only: w)
qed

section \<open>Phases and edge copies\<close>

lemma phases_exclusive:
  fixes d1 full single :: crl_time
  assumes "single <s full"
  shows "\<not> ((0 <s d1 \<and> d1 <s single) \<and> (0 <s d1 + full \<and> d1 + full <s single))"
proof
  assume a: "(0 <s d1 \<and> d1 <s single) \<and> (0 <s d1 + full \<and> d1 + full <s single)"
  have r1: "sint d1 < 2 ^ 63" "sint full < 2 ^ 63" using sint_lt [of d1] sint_lt [of full] by simp_all
  from a assms have p: "0 < sint d1" "sint d1 < sint single" "sint single < sint full"
    by (simp_all add: word_sless_alt)
  have s: "sint (d1 + full) = signed_take_bit 63 (sint d1 + sint full)"
    by (simp add: sint_word_add)
  show False
  proof (cases "sint d1 + sint full < 2 ^ 63")
    case True
    then have "sint (d1 + full) = sint d1 + sint full"
      using p s by (simp add: signed_take_bit_int_eq_self)
    then show False using a p by (simp add: word_sless_alt)
  next
    case False
    then have "signed_take_bit 63 (sint d1 + sint full) \<le> sint d1 + sint full - 2 ^ Suc 63"
      by (intro signed_take_bit_int_less_eq) simp
    then show False using a p s r1 by (simp add: word_sless_alt)
  qed
qed

lemma paintOneAt_Nil_iff:
  "paintOneAt d p t = [] \<longleftrightarrow> \<not> (0 <s t \<and> t <s singleDuration d)"
  by (auto simp: paintOneAt_def Let_def word_sless_alt word_sle_eq)

lemma example_durations:
  "singleDuration example_descriptor = 500" "fullDuration example_descriptor = 1980"
  by (simp_all add: singleDuration_def fullDuration_def example_descriptor_def
      default_descriptor_def default_consts)

lemma example_canvas:
  "canvasSize example_descriptor = 100" "spriteSize example_descriptor = 4"
  by (simp_all add: spriteSize_def int_of_float64_def example_descriptor_def
      default_descriptor_def default_consts)

lemma double_nonzero:
  fixes s :: int32
  assumes "0 <s s"
  shows "s + s \<noteq> 0" "s \<noteq> 0"
proof -
  have p: "0 < sint s" using assms by (simp add: word_sless_alt)
  then show "s \<noteq> 0" by auto
  have u: "sint s \<le> 2147483647" by (rule sint_bounds32)
  show "s + s \<noteq> 0"
  proof
    assume z: "s + s = 0"
    have "sint (s + s) = signed_take_bit (LENGTH(32) - 1) (sint s + sint s)"
      by (rule sint_word_add)
    then have "signed_take_bit (LENGTH(32) - 1) (sint s + sint s) = sint (0 :: int32)"
      by (simp only: z)
    then have e: "signed_take_bit 31 (sint s + sint s) = 0" by simp
    show False
    proof (cases "sint s + sint s < 2 ^ 31")
      case True
      then have "signed_take_bit 31 (sint s + sint s) = sint s + sint s"
        using p by (intro signed_take_bit_int_eq_self) simp_all
      then show False using e p by simp
    next
      case False
      then have "signed_take_bit 31 (sint s + sint s) \<le> sint s + sint s - 2 ^ Suc 31"
        by (intro signed_take_bit_int_less_eq) simp
      then show False using e u by simp
    qed
  qed
qed

section \<open>Frames of a constructed atlas\<close>

lemma constructed_fields:
  assumes "SpoilerMessCached_new img F fd cs = Returned cached"
  shows "m_image cached = img" "m_framesCount cached = F" "m_frameDuration cached = fd"
    "m_canvasSize cached = cs" "0 < sint F" "0 < sint fd" "0 < sint cs"
    "q_width img = atlas_columns F * cs" "q_height img = atlas_rows F * cs"
  using assms by (auto simp: SpoilerMessCached_new_def word_sless_alt split: if_splits)

lemma sint_crem_nonneg:
  fixes a b :: "'a::len word"
  assumes "0 \<le> sint a" "0 < sint b"
  shows "sint (crem a b) = sint a mod sint b"
proof -
  have e: "sint a smod sint b = sint a mod sint b"
    using assms by (simp add: signed_modulo_int_def sgn_if)
  have "0 \<le> sint a mod sint b" using assms by simp
  moreover have "sint a mod sint b < sint b" using assms by simp
  moreover have "sint b < 2 ^ (LENGTH('a) - 1)" by (rule sint_lt)
  ultimately show ?thesis
    unfolding crem_def e by (simp add: sint_sbintrunc' signed_take_bit_int_eq_self)
qed

lemma frame_index_now:
  fixes now fd :: crl_time and F :: int32
  assumes "0 \<le> sint now" "0 < sint fd" "0 < sint F"
  shows "scast (crem (cdiv now fd) (scast F :: crl_time)) 
    = (word_of_int ((sint now div sint fd) mod sint F) :: int32)"
proof -
  have q: "sint (cdiv now fd) = sint now div sint fd"
    using assms by (intro sint_cdiv_nonneg) simp_all
  have "0 \<le> sint now div sint fd" using assms by (simp add: pos_imp_zdiv_nonneg_iff)
  then have "sint (crem (cdiv now fd) (scast F :: crl_time))
      = sint (cdiv now fd) mod sint (scast F :: crl_time)"
    using assms by (intro sint_crem_nonneg) (simp_all add: q sint_scast_time)
  then have r: "sint (crem (cdiv now fd) (scast F :: crl_time)) = (sint now div sint fd) mod sint F"
    by (simp add: q sint_scast_time)
  have "(scast (crem (cdiv now fd) (scast F :: crl_time)) :: int32)
      = word_of_int (sint (crem (cdiv now fd) (scast F :: crl_time)))"
    by (rule scast_eq)
  then show ?thesis by (simp only: r)
qed

lemma frame_row_column:
  fixes index :: int32
  assumes "0 \<le> sint index"
  shows "cdiv index kFramesPerRow = word_of_int (sint index div 10)"
    and "index - cdiv index kFramesPerRow * kFramesPerRow = word_of_int (sint index mod 10)"
proof -
  have e: "sint index sdiv 10 = sint index div 10"
    using assms by (simp add: signed_divide_int_def sgn_if)
  show r: "cdiv index kFramesPerRow = word_of_int (sint index div 10)"
    by (simp add: cdiv_def sint_kFramesPerRow e)
  have h: "word_of_int (a * 10 + b) = (word_of_int a :: int32) * 10 + word_of_int b" for a b
    by simp
  have "index = word_of_int (sint index)" by simp
  also have "sint index = sint index div 10 * 10 + sint index mod 10" by simp
  finally have "index = word_of_int (sint index div 10 * 10 + sint index mod 10)" .
  then have "index = word_of_int (sint index div 10) * 10 + word_of_int (sint index mod 10)"
    by (simp only: h)
  then have "index - word_of_int (sint index div 10) * 10 = word_of_int (sint index mod 10)"
    by (metis add_diff_cancel_left')
  moreover have "kFramesPerRow = 10" by (simp add: kFramesPerRow_def)
  ultimately show "index - cdiv index kFramesPerRow * kFramesPerRow
      = word_of_int (sint index mod 10)"
    using r by metis
qed

lemma index_in_columns:
  fixes i F :: int
  assumes "0 \<le> i" "i < F"
  shows "i mod min F 10 = i mod 10" "i div min F 10 = i div 10"
proof -
  show "i mod min F 10 = i mod 10"
  proof (cases "F < 10")
    case True
    then show ?thesis using assms by (simp add: min_def)
  next
    case False
    then show ?thesis by (simp add: min_def)
  qed
  show "i div min F 10 = i div 10"
  proof (cases "F < 10")
    case True
    then show ?thesis using assms by (simp add: min_def)
  next
    case False
    then show ?thesis by (simp add: min_def)
  qed
qed

lemma frame_rect:
  assumes "0 \<le> sint index" "sint index < sint (m_framesCount cached)"
  shows "frame cached index =
    \<lparr>f_image = m_image cached,
     f_source = \<lparr>r_x = word_of_int (sint index mod min (sint (m_framesCount cached)) 10)
         * m_canvasSize cached,
       r_y = word_of_int (sint index div min (sint (m_framesCount cached)) 10)
         * m_canvasSize cached,
       r_width = m_canvasSize cached, r_height = m_canvasSize cached\<rparr>\<rparr>"
proof -
  have r: "cdiv index kFramesPerRow = word_of_int (sint index div 10)"
    and c: "index - cdiv index kFramesPerRow * kFramesPerRow = word_of_int (sint index mod 10)"
    using frame_row_column [OF assms(1)] by simp_all
  have m: "sint index mod min (sint (m_framesCount cached)) 10 = sint index mod 10"
    "sint index div min (sint (m_framesCount cached)) 10 = sint index div 10"
    using index_in_columns [OF assms] by simp_all
  show ?thesis
    unfolding frame_def Let_def m c by (simp only: r)
qed

lemma sint_small_product:
  fixes cs :: int32
  assumes "0 \<le> k" "0 < sint cs" "(k + 1) * sint cs \<le> 2147483647"
  shows "sint (word_of_int k * cs) = k * sint cs"
proof -
  have le: "k * sint cs \<le> (k + 1) * sint cs" using assms(2) by (simp add: algebra_simps)
  have "k * 1 \<le> k * sint cs" using assms(1,2) by (intro mult_left_mono) simp_all
  then have k: "k \<le> 2147483647" using le assms(3) by simp
  have "sint (word_of_int k :: int32) = signed_take_bit (LENGTH(32) - 1) k"
    by (rule sint_sbintrunc')
  then have w: "sint (word_of_int k :: int32) = k"
    using assms(1) k by (simp add: signed_take_bit_int_eq_self)
  have "0 \<le> k * sint cs" using assms(1,2) by simp
  then have "sint (word_of_int k * cs) = sint (word_of_int k :: int32) * sint cs"
    using le assms(3) by (intro sint_mult_fits32) (simp_all add: w)
  then show ?thesis by (simp only: w)
qed

lemma frame_within_atlas:
  assumes c: "SpoilerMessCached_new img F fd cs = Returned cached"
    and i: "0 \<le> sint index" "sint index < sint F" and fits: "atlas_fits F cs"
  shows "sint (r_x (f_source (frame cached index))) = (sint index mod min (sint F) 10) * sint cs"
    and "sint (r_y (f_source (frame cached index))) = (sint index div min (sint F) 10) * sint cs"
    and "rect_within (f_source (frame cached index)) (m_image cached)"
proof -
  note f = constructed_fields [OF c]
  define C where "C = min (sint F) 10"
  define R where "R = \<lceil>real_of_int (sint F) / 10\<rceil>"
  have R: "R = (sint F + 9) div 10" unfolding R_def by (rule ceiling_tenth)
  have C: "0 < C" using f(5) by (simp add: C_def)
  have w: "sint (q_width img) = C * sint cs"
    unfolding f(8) C_def using f(5,7) fits by (rule sint_atlas_width)
  have h: "sint (q_height img) = R * sint cs"
    unfolding f(9) R_def using f(5,7) fits by (rule sint_atlas_height)
  have wf: "C * sint cs \<le> 2147483647" and hf: "R * sint cs \<le> 2147483647"
    using fits unfolding atlas_fits_def C_def R_def by blast+
  have "sint index mod C < C" using C by (rule pos_mod_bound)
  then have col: "0 \<le> sint index mod C" "sint index mod C + 1 \<le> C"
    using C by (simp, linarith)
  have row: "0 \<le> sint index div C" "sint index div C + 1 \<le> R"
  proof -
    show "0 \<le> sint index div C" using C i(1) by (simp add: pos_imp_zdiv_nonneg_iff)
    have "sint index div C = sint index div 10"
      unfolding C_def using i by (rule index_in_columns)
    then show "sint index div C + 1 \<le> R" using i R by linarith
  qed
  have cw: "(sint index mod C + 1) * sint cs \<le> C * sint cs"
    using col(2) f(7) by (intro mult_right_mono) simp_all
  have rh: "(sint index div C + 1) * sint cs \<le> R * sint cs"
    using row(2) f(7) by (intro mult_right_mono) simp_all
  have fr: "frame cached index =
    \<lparr>f_image = m_image cached,
     f_source = \<lparr>r_x = word_of_int (sint index mod C) * cs,
       r_y = word_of_int (sint index div C) * cs, r_width = cs, r_height = cs\<rparr>\<rparr>"
    using frame_rect [of index cached] i unfolding f(2) f(4) C_def by simp
  have cw': "(sint index mod C + 1) * sint cs \<le> 2147483647" using cw wf by linarith
  have rh': "(sint index div C + 1) * sint cs \<le> 2147483647" using rh hf by linarith
  have x: "sint (word_of_int (sint index mod C) * cs) = (sint index mod C) * sint cs"
    using col(1) f(7) cw' by (rule sint_small_product)
  have y: "sint (word_of_int (sint index div C) * cs) = (sint index div C) * sint cs"
    using row(1) f(7) rh' by (rule sint_small_product)
  show "sint (r_x (f_source (frame cached index))) = (sint index mod min (sint F) 10) * sint cs"
    unfolding fr using x by (simp add: C_def)
  show "sint (r_y (f_source (frame cached index))) = (sint index div min (sint F) 10) * sint cs"
    unfolding fr using y by (simp add: C_def)
  have "0 \<le> (sint index mod C) * sint cs" "0 \<le> (sint index div C) * sint cs"
    using col(1) row(1) f(7) by simp_all
  moreover have "(sint index mod C) * sint cs + sint cs \<le> C * sint cs"
    "(sint index div C) * sint cs + sint cs \<le> R * sint cs"
    using cw rh by (simp_all add: algebra_simps)
  ultimately show "rect_within (f_source (frame cached index)) (m_image cached)"
    unfolding fr rect_within_def f(1) w h using x y by simp
qed

lemma default_atlas_constructed:
  "SpoilerMessCached_new (m_image default_atlas) kDefaultFramesCount kDefaultFrameDuration
     kDefaultCanvasSize = Returned default_atlas"
  by (simp add: SpoilerMessCached_new_def default_atlas_def painted_def new_image_def
      generous_platform_def default_consts atlas_columns_def atlas_rows_def smin_def
      kFramesPerRow_def cdiv_def word_sless_alt del: replicate.simps)

section \<open>Encoding and decoding\<close>

lemma read_le32_le32: "read_le32 (le32 w) = w"
  unfolding read_le32_def le32_def
proof (rule bit_word_eqI)
  fix n assume "n < LENGTH(32)"
  then have n: "n < 32" by simp
  consider "n < 8" | "8 \<le> n" "n < 16" | "16 \<le> n" "n < 24" | "24 \<le> n" "n < 32"
    using n by linarith
  then show "bit (ucast ([ucast w, ucast (drop_bit 8 w), ucast (drop_bit 16 w),
        ucast (drop_bit 24 w)] ! 0 :: byte)
      OR push_bit 8 (ucast ([ucast w, ucast (drop_bit 8 w), ucast (drop_bit 16 w),
        ucast (drop_bit 24 w)] ! 1 :: byte))
      OR push_bit 16 (ucast ([ucast w, ucast (drop_bit 8 w), ucast (drop_bit 16 w),
        ucast (drop_bit 24 w)] ! 2 :: byte))
      OR push_bit 24 (ucast ([ucast w, ucast (drop_bit 8 w), ucast (drop_bit 16 w),
        ucast (drop_bit 24 w)] ! 3 :: byte)) :: uint32) n = bit w n"
    by cases (auto simp: bit_simps)
qed

lemma length_le32: "length (le32 w) = 4"
  by (simp add: le32_def)

lemma byte_high_bits: "\<not> bit (b :: byte) (8 + n)" "\<not> bit (b :: byte) (16 + n)"
  "\<not> bit (b :: byte) (24 + n)"
  using bit_imp_le_length [of b "8 + n"] bit_imp_le_length [of b "16 + n"]
    bit_imp_le_length [of b "24 + n"] by auto

lemma le32_pixel_of_byte: "le32 (pixel_of_byte b) = [b, b, b, b]"
  unfolding le32_def pixel_of_byte_def
  by (auto intro!: bit_word_eqI simp: bit_simps byte_high_bits)

lemma parse_header_bytes: "parse_header (header_bytes header @ payload) = header"
proof -
  have r: "read_le32 (le32 w @ rest) = w" for w rest
    using read_le32_le32 [of w] by (simp add: read_le32_def le32_def)
  show ?thesis
    by (simp add: parse_header_def header_bytes_def length_le32 r)
qed

lemma length_header_bytes: "length (header_bytes header) = 24"
  by (simp add: header_bytes_def length_le32)

lemma dims_check_iff:
  assumes F: "0 < sint F" and r: "sint F \<le> 2147483638"
  shows "(sint (q_width g) = sint (atlas_columns F) * sint cs
      \<and> sint (q_height g) = sint (atlas_rows F) * sint cs)
    \<longleftrightarrow> (sint (q_width g) = min (sint F) 10 * sint cs
      \<and> sint (q_height g) = \<lceil>real_of_int (sint F) / 10\<rceil> * sint cs)"
proof -
  have "sint F + 9 \<le> 2147483647" using r by simp
  with F have "sint (atlas_rows F) = (sint F + 9) div 10" by (rule sint_atlas_rows)
  then have "sint (atlas_rows F) = \<lceil>real_of_int (sint F) / 10\<rceil>"
    by (simp only: ceiling_tenth)
  then show ?thesis by (simp only: sint_atlas_columns)
qed

lemma loadFromData_valid: "loadFromData png_load bytes = Some g \<Longrightarrow> qimage_valid g"
  by (auto simp: loadFromData_def split: option.splits if_splits)

lemma word_product_of_sint:
  fixes w a b :: int32
  assumes "sint w = sint a * sint b"
  shows "w = a * b"
proof -
  have "w = word_of_int (sint w)" by simp
  also have "\<dots> = word_of_int (sint a * sint b)" by (simp only: assms)
  also have "\<dots> = word_of_int (sint a) * word_of_int (sint b)" by (rule of_int_mult)
  finally show ?thesis by simp
qed

lemma map_by_index: "length ls = n \<Longrightarrow> map (\<lambda>y. f (ls ! y)) [0..<n] = map f ls"
  by (auto intro: nth_equalityI)

lemma expanded_line:
  assumes "length line = n"
  shows "concat (map (\<lambda>x. le32 (pixel_of_byte (line ! x))) [0..<n])
    = concat (map (\<lambda>b. [b, b, b, b]) line)"
proof -
  have "map (\<lambda>x. le32 (pixel_of_byte (line ! x))) [0..<n]
      = map (\<lambda>b. le32 (pixel_of_byte b)) line"
    using assms by (rule map_by_index)
  then show ?thesis by (simp add: le32_pixel_of_byte)
qed

lemma from_grayscale_expanded:
  assumes v: "qimage_valid g" and fmt: "q_format g = Format_Grayscale8"
    and mem: "image_allocated platform Format_ARGB32_Premultiplied (q_width g) (q_height g)"
  shows "from_grayscale platform g = Returned (expanded g)"
proof -
  have p: "0 <s q_width g" "0 <s q_height g"
    using v by (simp_all add: qimage_valid_def word_sless_alt)
  have len: "length (q_lines g) = unat (q_height g)"
    and lines: "\<forall>line \<in> set (q_lines g). length line = unat (q_width g)"
    using v fmt by (simp_all add: qimage_valid_def)
  have "map (\<lambda>y. concat (map (\<lambda>x. le32 (pixel_of_byte (q_lines g ! y ! x)))
          [0..<unat (q_width g)])) [0..<unat (q_height g)]
      = map (\<lambda>line. concat (map (\<lambda>x. le32 (pixel_of_byte (line ! x)))
          [0..<unat (q_width g)])) (q_lines g)"
    using len by (rule map_by_index)
  also have "\<dots> = map (\<lambda>line. concat (map (\<lambda>b. [b, b, b, b]) line)) (q_lines g)"
    using lines by (intro map_cong refl expanded_line) simp
  finally show ?thesis
    using p mem
    by (simp add: from_grayscale_def Let_def new_image_def isNull_def expanded_def)
qed

lemma from_grayscale_refused:
  assumes v: "qimage_valid g"
    and mem: "\<not> image_allocated platform Format_ARGB32_Premultiplied (q_width g) (q_height g)"
  shows "from_grayscale platform g = Abort"
proof -
  have "q_width g \<noteq> 0" "q_height g \<noteq> 0" using v by (auto simp: qimage_valid_def)
  then show ?thesis
    using mem by (simp add: from_grayscale_def Let_def new_image_def isNull_def null_image_def)
qed

lemma decoded_constructed:
  assumes F: "0 < sint F" and cs: "0 < sint cs" and fd: "0 < sint (fd :: int32)"
    and w: "sint (q_width g) = sint (atlas_columns F) * sint cs"
    and h: "sint (q_height g) = sint (atlas_rows F) * sint cs"
  shows "SpoilerMessCached_new (expanded g) F (scast fd) cs
    = Returned \<lparr>m_image = expanded g, m_frameDuration = scast fd,
        m_framesCount = F, m_canvasSize = cs\<rparr>"
proof -
  have "0 < sint (scast fd :: crl_time)" using fd by (simp add: sint_scast_time)
  then have "0 <s (scast fd :: crl_time)" by (simp add: word_sless_alt)
  moreover have "0 <s F" "0 <s cs" using F cs by (simp_all add: word_sless_alt)
  moreover have "q_width (expanded g) = atlas_columns F * cs"
    using word_product_of_sint [OF w] by (simp add: expanded_def)
  moreover have "q_height (expanded g) = atlas_rows F * cs"
    using word_product_of_sint [OF h] by (simp add: expanded_def)
  ultimately show ?thesis by (simp add: SpoilerMessCached_new_def)
qed

lemma FromSerialized_short:
  "length data \<le> sizeof_Header
    \<Longrightarrow> FromSerialized platform png_load xxh32 data validator = Returned None"
  by (simp add: FromSerialized_def)

lemma FromSerialized_header:
  assumes "\<not> length data \<le> sizeof_Header" "header_checks_fail xxh32 data validator"
  shows "FromSerialized platform png_load xxh32 data validator = Returned None"
  using assms unfolding FromSerialized_def header_checks_fail_def Let_def
  by (simp only: if_False if_True)

lemma FromSerialized_payload:
  assumes "\<not> length data \<le> sizeof_Header" "\<not> header_checks_fail xxh32 data validator"
  shows "FromSerialized platform png_load xxh32 data validator =
    (case loadFromData png_load (drop sizeof_Header data) of
       None \<Rightarrow> Returned None
     | Some grayscale \<Rightarrow>
         if q_format grayscale \<noteq> Format_Grayscale8 then Returned None
         else if sint (q_width grayscale)
                  \<noteq> sint (atlas_columns (h_framesCount (parse_header data)))
                    * sint (h_canvasSize (parse_header data))
                \<or> sint (q_height grayscale)
                  \<noteq> sint (atlas_rows (h_framesCount (parse_header data)))
                    * sint (h_canvasSize (parse_header data))
         then Returned None
         else case from_grayscale platform grayscale of
                Abort \<Rightarrow> Abort
              | Returned img \<Rightarrow>
              (case SpoilerMessCached_new img
                 (h_framesCount (parse_header data))
                 (scast (h_frameDuration (parse_header data)))
                 (h_canvasSize (parse_header data)) of
                 Abort \<Rightarrow> Abort
               | Returned cached \<Rightarrow> Returned (Some cached)))"
proof -
  have len: "sizeof_Header + unat (h_dataLength (parse_header data)) = length data"
    using assms(2) unfolding header_checks_fail_def Let_def by blast
  then have t: "take (unat (h_dataLength (parse_header data))) (drop sizeof_Header data)
      = drop sizeof_Header data"
    by simp
  have "FromSerialized platform png_load xxh32 data validator =
    (case loadFromData png_load
        (take (unat (h_dataLength (parse_header data))) (drop sizeof_Header data)) of
       None \<Rightarrow> Returned None
     | Some grayscale \<Rightarrow>
         if q_format grayscale \<noteq> Format_Grayscale8 then Returned None
         else if sint (q_width grayscale)
                  \<noteq> sint (atlas_columns (h_framesCount (parse_header data)))
                    * sint (h_canvasSize (parse_header data))
                \<or> sint (q_height grayscale)
                  \<noteq> sint (atlas_rows (h_framesCount (parse_header data)))
                    * sint (h_canvasSize (parse_header data))
         then Returned None
         else case from_grayscale platform grayscale of
                Abort \<Rightarrow> Abort
              | Returned img \<Rightarrow>
              (case SpoilerMessCached_new img
                 (h_framesCount (parse_header data))
                 (scast (h_frameDuration (parse_header data)))
                 (h_canvasSize (parse_header data)) of
                 Abort \<Rightarrow> Abort
               | Returned cached \<Rightarrow> Returned (Some cached)))"
    using assms unfolding FromSerialized_def header_checks_fail_def Let_def
    by (simp only: if_False)
  then show ?thesis by (simp only: t)
qed

lemma header_checks_spec:
  assumes long: "\<not> length data \<le> sizeof_Header"
  shows "header_checks_fail xxh32 data validator \<longleftrightarrow>
    (h_version (parse_header data) \<noteq> kVersion
     \<or> sint (h_canvasSize (parse_header data)) \<le> 0
     \<or> sint (h_framesCount (parse_header data)) \<le> 0
     \<or> sint (h_frameDuration (parse_header data)) \<le> 0
     \<or> (\<exists>v. validator = Some v
          \<and> (v_frameDuration v \<noteq> scast (h_frameDuration (parse_header data))
             \<or> v_framesCount v \<noteq> h_framesCount (parse_header data)
             \<or> v_canvasSize v \<noteq> h_canvasSize (parse_header data)))
     \<or> unat (h_dataLength (parse_header data)) \<noteq> length (drop sizeof_Header data)
     \<or> xxh32 (drop sizeof_Header data) \<noteq> h_dataHash (parse_header data))"
proof -
  have l: "sizeof_Header + unat (h_dataLength (parse_header data)) \<noteq> length data
      \<longleftrightarrow> unat (h_dataLength (parse_header data)) \<noteq> length (drop sizeof_Header data)"
    using long by auto
  have t: "take (unat (h_dataLength (parse_header data))) (drop sizeof_Header data)
      = drop sizeof_Header data"
    if "unat (h_dataLength (parse_header data)) = length (drop sizeof_Header data)"
    using that by simp
  have v: "(case validator of
               None \<Rightarrow> False
             | Some v \<Rightarrow> v_frameDuration v \<noteq> scast (h_frameDuration (parse_header data))
                 \<or> v_framesCount v \<noteq> h_framesCount (parse_header data)
                 \<or> v_canvasSize v \<noteq> h_canvasSize (parse_header data))
      \<longleftrightarrow> (\<exists>v. validator = Some v
          \<and> (v_frameDuration v \<noteq> scast (h_frameDuration (parse_header data))
             \<or> v_framesCount v \<noteq> h_framesCount (parse_header data)
             \<or> v_canvasSize v \<noteq> h_canvasSize (parse_header data)))"
    by (cases validator) simp_all
  show ?thesis
    unfolding header_checks_fail_def Let_def v l
    using t by (auto simp: word_sle_eq)
qed

text \<open>
  What \<open>FromSerialized\<close> returns for a blob that passed the checks of the header.
\<close>

lemma FromSerialized_decoded:
  assumes long: "\<not> length data \<le> sizeof_Header"
    and ok: "\<not> header_checks_fail xxh32 data validator"
  shows "FromSerialized platform png_load xxh32 data validator =
    (case loadFromData png_load (drop sizeof_Header data) of
       None \<Rightarrow> Returned None
     | Some g \<Rightarrow>
         if q_format g \<noteq> Format_Grayscale8
            \<or> sint (q_width g) \<noteq> sint (atlas_columns (h_framesCount (parse_header data)))
                * sint (h_canvasSize (parse_header data))
            \<or> sint (q_height g) \<noteq> sint (atlas_rows (h_framesCount (parse_header data)))
                * sint (h_canvasSize (parse_header data))
         then Returned None
         else if image_allocated platform Format_ARGB32_Premultiplied (q_width g) (q_height g)
         then Returned (Some (decoded png_load data))
         else Abort)"
proof (cases "loadFromData png_load (drop sizeof_Header data)")
  case None
  then show ?thesis using FromSerialized_payload [OF long ok, of platform png_load] by simp
next
  case (Some g)
  note code = FromSerialized_payload [OF long ok, of platform png_load, unfolded Some option.case]
  have v: "qimage_valid g" using Some by (rule loadFromData_valid)
  have pos: "0 < sint (h_framesCount (parse_header data))"
    "0 < sint (h_canvasSize (parse_header data))"
    "0 < sint (h_frameDuration (parse_header data))"
    using ok unfolding header_checks_spec [OF long] by simp_all
  show ?thesis
  proof (cases "q_format g \<noteq> Format_Grayscale8
      \<or> sint (q_width g) \<noteq> sint (atlas_columns (h_framesCount (parse_header data)))
          * sint (h_canvasSize (parse_header data))
      \<or> sint (q_height g) \<noteq> sint (atlas_rows (h_framesCount (parse_header data)))
          * sint (h_canvasSize (parse_header data))")
    case True
    then show ?thesis unfolding code Some by auto
  next
    case False
    then have g: "q_format g = Format_Grayscale8"
      and w: "sint (q_width g) = sint (atlas_columns (h_framesCount (parse_header data)))
        * sint (h_canvasSize (parse_header data))"
      and h: "sint (q_height g) = sint (atlas_rows (h_framesCount (parse_header data)))
        * sint (h_canvasSize (parse_header data))"
      by blast+
    show ?thesis
    proof (cases "image_allocated platform Format_ARGB32_Premultiplied (q_width g) (q_height g)")
      case True
      have e: "from_grayscale platform g = Returned (expanded g)"
        using v g True by (rule from_grayscale_expanded)
      have c: "SpoilerMessCached_new (expanded g) (h_framesCount (parse_header data))
          (scast (h_frameDuration (parse_header data))) (h_canvasSize (parse_header data))
        = Returned \<lparr>m_image = expanded g,
            m_frameDuration = scast (h_frameDuration (parse_header data)),
            m_framesCount = h_framesCount (parse_header data),
            m_canvasSize = h_canvasSize (parse_header data)\<rparr>"
        using pos(1) pos(2) pos(3) w h by (rule decoded_constructed)
      show ?thesis
        unfolding code Some using g w h True by (simp add: e c decoded_def Some)
    next
      case False
      have "from_grayscale platform g = Abort" using v False by (rule from_grayscale_refused)
      then show ?thesis unfolding code Some using g w h False by simp
    qed
  qed
qed

lemma FromSerialized_result:
  assumes range: "frames_in_range data"
  shows "FromSerialized platform png_load xxh32 data validator =
     (if spec_rejects png_load xxh32 data validator then Returned None
      else if image_served platform png_load data
      then Returned (Some (decoded png_load data))
      else Abort)"
proof (cases "length data \<le> sizeof_Header")
  case True
  then show ?thesis
    by (simp add: FromSerialized_short spec_rejects_def)
next
  case long: False
  show ?thesis
  proof (cases "header_checks_fail xxh32 data validator")
    case True
    then have "spec_rejects png_load xxh32 data validator"
      unfolding header_checks_spec [OF long] spec_rejects_def Let_def by blast
    then show ?thesis using FromSerialized_header [OF long True] by simp
  next
    case ok: False
    define header where "header = parse_header data"
    have k: "\<not> (h_version header \<noteq> kVersion
       \<or> sint (h_canvasSize header) \<le> 0
       \<or> sint (h_framesCount header) \<le> 0
       \<or> sint (h_frameDuration header) \<le> 0
       \<or> (\<exists>v. validator = Some v
          \<and> (v_frameDuration v \<noteq> scast (h_frameDuration header)
             \<or> v_framesCount v \<noteq> h_framesCount header
             \<or> v_canvasSize v \<noteq> h_canvasSize header))
       \<or> unat (h_dataLength header) \<noteq> length (drop sizeof_Header data)
       \<or> xxh32 (drop sizeof_Header data) \<noteq> h_dataHash header)"
      using ok unfolding header_checks_spec [OF long] header_def .
    then have pos: "0 < sint (h_framesCount header)" by simp
    have fr: "sint (h_framesCount header) \<le> 2147483638"
      using range long by (simp add: frames_in_range_def header_def)
    have spec: "spec_rejects png_load xxh32 data validator \<longleftrightarrow>
      (case loadFromData png_load (drop sizeof_Header data) of
         None \<Rightarrow> True
       | Some grayscale \<Rightarrow>
           q_format grayscale \<noteq> Format_Grayscale8
           \<or> sint (q_width grayscale) \<noteq> min (sint (h_framesCount header)) 10
               * sint (h_canvasSize header)
           \<or> sint (q_height grayscale)
             \<noteq> \<lceil>real_of_int (sint (h_framesCount header)) / 10\<rceil>
               * sint (h_canvasSize header))"
      using k long unfolding spec_rejects_def Let_def header_def [symmetric] by blast
    note code = FromSerialized_decoded [OF long ok, of platform png_load, folded header_def]
    show ?thesis
    proof (cases "loadFromData png_load (drop sizeof_Header data)")
      case None
      then show ?thesis using spec code by simp
    next
      case (Some g)
      note d = dims_check_iff [OF pos fr, of g "h_canvasSize header"]
      show ?thesis
        unfolding code spec Some using d by (auto simp: image_served_def Some)
    qed
  qed
qed

lemma length_concat_le32: "length (concat (map (\<lambda>x. le32 (f x)) [0..<n])) = 4 * n"
  by (induction n) (simp_all add: length_le32)

lemma nth_concat_le32:
  "x < n \<Longrightarrow> concat (map (\<lambda>x. le32 (f x)) [0..<n]) ! (4 * x) = ucast (f x)"
proof (induction n)
  case 0
  then show ?case by simp
next
  case (Suc n)
  show ?case
  proof (cases "x < n")
    case True
    then have "4 * x < length (concat (map (\<lambda>x. le32 (f x)) [0..<n]))"
      by (simp add: length_concat_le32)
    then show ?thesis using Suc.IH [OF True] by (simp add: nth_append)
  next
    case False
    then have "x = n" using Suc.prems by simp
    moreover have "concat (map (\<lambda>x. le32 (f x)) [0..<Suc n]) ! (4 * n) = le32 (f n) ! 0"
      by (simp add: nth_append length_concat_le32)
    ultimately show ?thesis by (simp add: le32_def)
  qed
qed

lemma gray_le32: "is_gray p \<Longrightarrow> le32 p = [ucast p, ucast p, ucast p, ucast p]"
  by (simp add: is_gray_def channel_def le32_def)

lemma gray_lines_round_trip:
  assumes gray: "\<forall>x y. is_gray (r x y)"
    and L: "L = map (\<lambda>y. concat (map (\<lambda>x. le32 (r x y)) [0..<W])) [0..<H]"
    and G: "G = map (\<lambda>y. map (\<lambda>x. L ! y ! (4 * x)) [0..<W]) [0..<H]"
  shows "map (\<lambda>line. concat (map (\<lambda>b. [b, b, b, b]) line)) G = L"
proof -
  have G': "G = map (\<lambda>y. map (\<lambda>x. ucast (r x y)) [0..<W]) [0..<H]"
    unfolding G
  proof (intro map_cong refl)
    fix y x assume "y \<in> set [0..<H]" "x \<in> set [0..<W]"
    then have y: "y < H" and x: "x < W" by simp_all
    have "L ! y = concat (map (\<lambda>x. le32 (r x y)) [0..<W])" using y by (simp add: L)
    then show "L ! y ! (4 * x) = ucast (r x y)" using nth_concat_le32 [OF x] by simp
  qed
  have "map (\<lambda>line. concat (map (\<lambda>b. [b, b, b, b]) line)) G
      = map (\<lambda>y. concat (map (\<lambda>x. le32 (r x y)) [0..<W])) [0..<H]"
    unfolding G' using gray by (simp add: o_def gray_le32)
  then show ?thesis by (simp only: L)
qed

lemma painted_round_trip:
  assumes "gray_painter raster"
    and "0 <s q_width (painted raster sprites calls
      (new_image platform w h Format_ARGB32_Premultiplied 4))"
  shows "expanded (grayscale_of
      (painted raster sprites calls (new_image platform w h Format_ARGB32_Premultiplied 4)))
    = painted raster sprites calls (new_image platform w h Format_ARGB32_Premultiplied 4)"
proof (cases "0 <s w \<and> 0 <s h \<and> image_allocated platform Format_ARGB32_Premultiplied w h")
  case False
  then have "new_image platform w h Format_ARGB32_Premultiplied 4 = null_image"
    by (auto simp: new_image_def)
  then show ?thesis using assms(2) by (simp add: painted_def null_image_def)
next
  case True
  have g: "\<forall>x y. is_gray (raster sprites calls x y)"
    using assms(1) by (simp add: gray_painter_def)
  show ?thesis
    using True gray_lines_round_trip [OF g refl refl, of "unat w" "unat h"]
    by (simp add: expanded_def grayscale_of_def painted_def new_image_def)
qed

lemma generate_result_form:
  assumes "GenerateSpoilerMess platform raster random d = Returned cached"
  shows "\<exists>sprites calls.
      m_image cached = painted raster sprites calls
        (new_image platform (canvasSize d * atlas_columns (framesCount d))
          (canvasSize d * atlas_rows (framesCount d)) Format_ARGB32_Premultiplied 4)"
    and "SpoilerMessCached_new (m_image cached) (framesCount d) (frameDuration d) (canvasSize d)
      = Returned cached"
proof -
  from assms obtain particles sprites where
    "SpoilerMessCached_new
       (painted raster sprites (paint_rows d particles 0 0 [])
         (new_image platform (canvasSize d * atlas_columns (framesCount d))
           (canvasSize d * atlas_rows (framesCount d)) Format_ARGB32_Premultiplied 4))
       (framesCount d) (frameDuration d) (canvasSize d) = Returned cached"
    unfolding GenerateSpoilerMess_def Let_def
    by (auto split: if_splits outcome.splits)
  note c = this
  have i: "m_image cached = painted raster sprites (paint_rows d particles 0 0 [])
         (new_image platform (canvasSize d * atlas_columns (framesCount d))
           (canvasSize d * atlas_rows (framesCount d)) Format_ARGB32_Premultiplied 4)"
    using constructed_fields(1) [OF c] .
  then show "\<exists>sprites calls.
      m_image cached = painted raster sprites calls
        (new_image platform (canvasSize d * atlas_columns (framesCount d))
          (canvasSize d * atlas_rows (framesCount d)) Format_ARGB32_Premultiplied 4)"
    by blast
  show "SpoilerMessCached_new (m_image cached) (framesCount d) (frameDuration d) (canvasSize d)
      = Returned cached"
    using c by (simp only: i)
qed

lemma scast_narrow_widen:
  fixes t :: crl_time
  assumes "- 2147483648 \<le> sint t" "sint t \<le> 2147483647"
  shows "sint (scast t :: int32) = sint t" "scast (scast t :: int32) = t"
proof -
  have "(scast t :: int32) = word_of_int (sint t)" by (rule scast_eq)
  then have "sint (scast t :: int32) = signed_take_bit (LENGTH(32) - 1) (sint t)"
    by (simp only: sint_sbintrunc')
  then show n: "sint (scast t :: int32) = sint t"
    using assms by (simp add: signed_take_bit_int_eq_self)
  have "(scast (scast t :: int32) :: crl_time) = word_of_int (sint (scast t :: int32))"
    by (rule scast_eq)
  then show "scast (scast t :: int32) = t" by (simp only: n) simp
qed

lemma to_grayscale_allocated:
  assumes "0 <s q_width img" "0 <s q_height img"
    and "image_allocated platform Format_Grayscale8 (q_width img) (q_height img)"
  shows "to_grayscale platform img = Returned (grayscale_of img)"
  using assms by (simp add: to_grayscale_def Let_def new_image_def isNull_def grayscale_of_def)

lemma serialize_bytes:
  assumes "m_frameDuration cached <s 2147483647"
    and "to_grayscale platform (m_image cached) = Returned (grayscale_of (m_image cached))"
  shows "serialize platform png_save xxh32 cached = Returned
    (header_bytes \<lparr>h_version = kVersion,
        h_dataLength = word_of_nat (length (png_save (grayscale_of (m_image cached)))),
        h_dataHash = xxh32 (png_save (grayscale_of (m_image cached))),
        h_framesCount = m_framesCount cached,
        h_canvasSize = m_canvasSize cached,
        h_frameDuration = scast (m_frameDuration cached)\<rparr>
     @ png_save (grayscale_of (m_image cached)))"
  using assms by (simp add: serialize_def Let_def isNull_def grayscale_of_def)

lemma round_trip:
  assumes c: "SpoilerMessCached_new img F fd cs = Returned cached"
    and fd: "sint fd < 2147483647"
    and rt: "expanded (grayscale_of img) = img"
    and fits: "atlas_fits F cs"
    and enc: "image_allocated encoder Format_Grayscale8 (q_width img) (q_height img)"
    and dec: "image_allocated decoder Format_ARGB32_Premultiplied (q_width img) (q_height img)"
    and codec: "loadFromData png_load (png_save (grayscale_of img)) = Some (grayscale_of img)"
    and len: "0 < length (png_save (grayscale_of img))"
      "length (png_save (grayscale_of img)) < 2 ^ 32"
  shows "\<exists>bytes. serialize encoder png_save xxh32 cached = Returned bytes
    \<and> FromSerialized decoder png_load xxh32 bytes
        (Some \<lparr>v_frameDuration = m_frameDuration cached, v_framesCount = m_framesCount cached,
           v_canvasSize = m_canvasSize cached\<rparr>)
      = Returned (Some cached)"
proof -
  note f = constructed_fields [OF c]
  define payload where "payload = png_save (grayscale_of img)"
  define header where "header = \<lparr>h_version = kVersion,
        h_dataLength = word_of_nat (length payload), h_dataHash = xxh32 payload,
        h_framesCount = F, h_canvasSize = cs, h_frameDuration = (scast fd :: int32)\<rparr>"
  define bytes where "bytes = header_bytes header @ payload"
  define validator where "validator = \<lparr>v_frameDuration = fd, v_framesCount = F, v_canvasSize = cs\<rparr>"
  have w: "sint (q_width img) = min (sint F) 10 * sint cs"
    unfolding f(8) using f(5,7) fits by (rule sint_atlas_width)
  have h: "sint (q_height img) = \<lceil>real_of_int (sint F) / 10\<rceil> * sint cs"
    unfolding f(9) using f(5,7) fits by (rule sint_atlas_height)
  have "0 < min (sint F) 10 * sint cs" using f(5,7) by simp
  then have pw: "0 <s q_width img" using w by (simp add: word_sless_alt)
  have "1 \<le> (sint F + 9) div 10" using f(5) by linarith
  then have "0 < ((sint F + 9) div 10) * sint cs" using f(7) by simp
  then have "0 < \<lceil>real_of_int (sint F) / 10\<rceil> * sint cs" by (simp only: ceiling_tenth)
  then have ph': "0 <s q_height img" using h by (simp add: word_sless_alt)
  have g: "to_grayscale encoder (m_image cached) = Returned (grayscale_of (m_image cached))"
    unfolding f(1) using pw ph' enc by (rule to_grayscale_allocated)
  have "fd <s 2147483647" using fd by (simp add: word_sless_alt)
  then have ser: "serialize encoder png_save xxh32 cached = Returned bytes"
    using serialize_bytes [of cached encoder png_save xxh32] g
    by (simp add: f bytes_def header_def payload_def)
  have ph: "parse_header bytes = header" unfolding bytes_def by (rule parse_header_bytes)
  have dr: "drop sizeof_Header bytes = payload"
    by (simp add: bytes_def sizeof_Header_def length_header_bytes)
  have lb: "\<not> length bytes \<le> sizeof_Header"
    using len(1) by (simp add: bytes_def sizeof_Header_def length_header_bytes payload_def)
  have n: "sint (scast fd :: int32) = sint fd" "scast (scast fd :: int32) = fd"
    using scast_narrow_widen [of fd] f(6) fd by simp_all
  have ul: "unat (word_of_nat (length payload) :: uint32) = length payload"
    using len(2) by (simp add: payload_def unat_of_nat)
  have fmt: "q_format (grayscale_of img) = Format_Grayscale8"
    and dims: "q_width (grayscale_of img) = q_width img"
      "q_height (grayscale_of img) = q_height img"
    by (simp_all add: grayscale_of_def)
  have range: "frames_in_range bytes"
    using fits by (simp add: frames_in_range_def ph header_def atlas_fits_def)
  have served: "image_served decoder png_load bytes"
    using codec dec by (simp add: image_served_def dr payload_def dims)
  have "\<not> spec_rejects png_load xxh32 bytes (Some validator)"
    unfolding spec_rejects_def Let_def ph dr
    using lb f(5,7) f(6) n ul codec fmt dims w h
    by (simp add: header_def validator_def payload_def kVersion_def)
  then have "FromSerialized decoder png_load xxh32 bytes (Some validator)
      = Returned (Some (decoded png_load bytes))"
    using served by (simp add: FromSerialized_result [OF range])
  moreover have "decoded png_load bytes = cached"
    unfolding decoded_def ph dr using codec rt n f(1-4)
    by (simp add: header_def payload_def)
  ultimately show ?thesis using ser by (simp add: validator_def f)
qed

lemma length_concat_uniform:
  "\<forall>line \<in> set ls. length line = n \<Longrightarrow> length (concat ls) = length ls * n"
  by (induction ls) simp_all

lemma line_of_concat:
  "\<forall>line \<in> set ls. length line = n \<Longrightarrow> y < length ls
    \<Longrightarrow> take n (drop (y * n) (concat ls)) = ls ! y"
proof (induction ls arbitrary: y)
  case Nil
  then show ?case by simp
next
  case (Cons l ls)
  show ?case
  proof (cases y)
    case 0
    then show ?thesis using Cons.prems by simp
  next
    case (Suc k)
    then have "take n (drop (k * n) (concat ls)) = ls ! k"
      using Cons.prems by (intro Cons.IH) simp_all
    then show ?thesis using Suc Cons.prems by simp
  qed
qed

lemma raw_round_trip:
  assumes "q_format g = Format_Grayscale8" "length (q_lines g) = unat (q_height g)"
    "\<forall>line \<in> set (q_lines g). length line = unat (q_width g)"
  shows "raw_load (raw_save g) = Some g"
proof -
  have r: "read_le32 (le32 w @ rest) = w" for w rest
    using read_le32_le32 [of w] by (simp add: read_le32_def le32_def)
  have lc: "length (concat (q_lines g)) = unat (q_height g) * unat (q_width g)"
    using length_concat_uniform [OF assms(3)] assms(2) by simp
  have "map (\<lambda>y. take (unat (q_width g)) (drop (y * unat (q_width g)) (concat (q_lines g))))
      [0..<length (q_lines g)] = q_lines g"
    using line_of_concat [OF assms(3)] by (intro nth_equalityI) simp_all
  then have "map (\<lambda>y. take (unat (q_width g)) (drop (y * unat (q_width g)) (concat (q_lines g))))
      [0..<unat (q_height g)] = q_lines g"
    by (simp only: assms(2))
  then show ?thesis
    using assms(1) lc
    by (simp add: raw_load_def raw_save_def Let_def length_le32 r mult.commute)
qed

lemma painted_blank:
  "painted blank_raster sprites calls img = painted blank_raster [] [] img"
  by (simp add: painted_def blank_raster_def)

lemma gray_checker: "gray_painter checker_raster"
  by (simp add: gray_painter_def is_gray_def channel_def checker_raster_def)

lemma generous_serves: "platform_serves generous_platform d"
  by (simp add: platform_serves_def generous_platform_def)

lemma long_frame_generated:
  "GenerateSpoilerMess generous_platform blank_raster zero_draws long_frame_descriptor
    = Returned long_frame_atlas"
proof -
  have i: "descriptor_invariants long_frame_descriptor"
    by (simp add: descriptor_invariants_def long_frame_descriptor_def example_descriptor_def
        default_descriptor_def default_consts)
  have f: "descriptor_fits long_frame_descriptor"
    by (simp add: descriptor_fits_def atlas_fits_def timeline_fits_def long_frame_descriptor_def
        example_descriptor_def default_descriptor_def default_consts)
  obtain a where a: "GenerateSpoilerMess generous_platform blank_raster zero_draws
      long_frame_descriptor = Returned a"
    using valid_descriptor_returns [OF i f generous_serves] by blast
  obtain sprites calls where "m_image a = painted blank_raster sprites calls
        (new_image generous_platform
          (canvasSize long_frame_descriptor * atlas_columns (framesCount long_frame_descriptor))
          (canvasSize long_frame_descriptor * atlas_rows (framesCount long_frame_descriptor))
          Format_ARGB32_Premultiplied 4)"
    using generate_result_form(1) [OF a] by blast
  then have "m_image a = painted blank_raster [] []
        (new_image generous_platform
          (canvasSize long_frame_descriptor * atlas_columns (framesCount long_frame_descriptor))
          (canvasSize long_frame_descriptor * atlas_rows (framesCount long_frame_descriptor))
          Format_ARGB32_Premultiplied 4)"
    by (simp only: painted_blank [of sprites calls])
  moreover have "canvasSize long_frame_descriptor * atlas_columns (framesCount long_frame_descriptor)
      = 1000"
    "canvasSize long_frame_descriptor * atlas_rows (framesCount long_frame_descriptor) = 600"
    by (simp_all add: long_frame_descriptor_def example_descriptor_def default_descriptor_def
        default_consts atlas_columns_def atlas_rows_def smin_def kFramesPerRow_def cdiv_def
        word_sless_alt)
  ultimately have m: "m_image a = m_image long_frame_atlas"
    by (simp add: long_frame_atlas_def default_atlas_def)
  note c = constructed_fields [OF generate_result_form(2) [OF a]]
  have "a = long_frame_atlas"
    using m c(2-4)
    by (cases a) (simp add: long_frame_atlas_def default_atlas_def long_frame_descriptor_def
        example_descriptor_def default_descriptor_def)
  then show ?thesis using a by simp
qed

lemma default_atlas_image:
  "0 <s q_width (m_image default_atlas)" "0 <s q_height (m_image default_atlas)"
  "q_width (m_image default_atlas) = 1000" "q_height (m_image default_atlas) = 600"
  by (simp_all add: default_atlas_def painted_def new_image_def generous_platform_def
      word_sless_alt)

lemma default_atlas_serialized:
  "serialize generous_platform png_save xxh32 default_atlas \<noteq> Abort"
proof -
  have "to_grayscale generous_platform (m_image default_atlas)
      = Returned (grayscale_of (m_image default_atlas))"
    using default_atlas_image(1,2)
    by (rule to_grayscale_allocated) (simp add: generous_platform_def)
  moreover have "m_frameDuration default_atlas <s 2147483647"
    by (simp add: default_atlas_def default_consts word_sless_alt)
  ultimately show ?thesis by (simp add: serialize_bytes)
qed

text \<open>The small atlas: generated, and encoded in 16 bytes by the uncompressed codec.\<close>

lemma small_invariants: "descriptor_invariants small_descriptor"
  by (simp add: descriptor_invariants_def small_descriptor_def example_descriptor_def
      default_descriptor_def default_consts)

lemma small_fits: "descriptor_fits small_descriptor"
proof -
  have "atlas_fits 2 2" unfolding atlas_fits_def ceiling_tenth by simp
  then show ?thesis
    by (simp add: descriptor_fits_def timeline_fits_def small_descriptor_def
        example_descriptor_def default_descriptor_def default_consts)
qed

lemma upt_small: "[0..<2] = [0, 1]" "[0..<4] = [0, 1, 2, 3]"
  by (simp_all add: numeral_eq_Suc upt_Suc_append)

lemma checker_pixels:
  "le32 (0xFFFFFFFF :: uint32) = [255, 255, 255, 255]"
  "le32 (0x80808080 :: uint32) = [128, 128, 128, 128]"
  by (simp_all add: le32_def)

lemma small_atlas_generated:
  "GenerateSpoilerMess generous_platform checker_raster zero_draws small_descriptor
    = Returned small_atlas"
proof -
  obtain a where a: "GenerateSpoilerMess generous_platform checker_raster zero_draws
      small_descriptor = Returned a"
    using valid_descriptor_returns [OF small_invariants small_fits generous_serves] by blast
  have s: "canvasSize small_descriptor * atlas_columns (framesCount small_descriptor) = 4"
    "canvasSize small_descriptor * atlas_rows (framesCount small_descriptor) = 2"
    by (simp_all add: small_descriptor_def example_descriptor_def default_descriptor_def
        atlas_columns_def atlas_rows_def smin_def kFramesPerRow_def cdiv_def word_sless_alt)
  obtain sprites calls where "m_image a = painted checker_raster sprites calls
        (new_image generous_platform 4 2 Format_ARGB32_Premultiplied 4)"
    using generate_result_form(1) [OF a] unfolding s by blast
  then have i: "m_image a = m_image small_atlas"
    by (simp add: painted_def new_image_def generous_platform_def checker_raster_def
        small_atlas_def checker_pixels upt_small word_sless_alt)
  note f = constructed_fields [OF generate_result_form(2) [OF a]]
  have "a = small_atlas"
    using i f(2-4)
    by (cases a) (simp add: small_atlas_def small_descriptor_def example_descriptor_def
        default_descriptor_def)
  then show ?thesis using a by simp
qed

lemma small_atlas_gray:
  "grayscale_of (m_image small_atlas)
    = \<lparr>q_format = Format_Grayscale8, q_width = 4, q_height = 2,
       q_lines = [[255, 128, 255, 128], [128, 255, 128, 255]]\<rparr>"
  by (simp add: grayscale_of_def small_atlas_def upt_small)

lemma small_atlas_codec:
  "loadFromData raw_load (raw_save (grayscale_of (m_image small_atlas)))
    = Some (grayscale_of (m_image small_atlas))"
  "length (raw_save (grayscale_of (m_image small_atlas))) = 16"
proof -
  have "raw_load (raw_save (grayscale_of (m_image small_atlas)))
      = Some (grayscale_of (m_image small_atlas))"
    unfolding small_atlas_gray by (rule raw_round_trip) auto
  moreover have "qimage_valid (grayscale_of (m_image small_atlas))"
    unfolding small_atlas_gray by (auto simp: qimage_valid_def)
  ultimately show "loadFromData raw_load (raw_save (grayscale_of (m_image small_atlas)))
    = Some (grayscale_of (m_image small_atlas))"
    by (simp add: loadFromData_def)
  show "length (raw_save (grayscale_of (m_image small_atlas))) = 16"
    unfolding small_atlas_gray by (simp add: raw_save_def length_le32)
qed

lemma tiny_header:
  "parse_header tiny_blob = \<lparr>h_version = 1, h_dataLength = 9,
     h_dataHash = toy_hash [1, 0, 0, 0, 1, 0, 0, 0, 255],
     h_framesCount = 1, h_canvasSize = 1, h_frameDuration = 33\<rparr>"
  "drop sizeof_Header tiny_blob = [1, 0, 0, 0, 1, 0, 0, 0, 255]"
  "length tiny_blob = 33"
proof -
  have r: "read_le32 (le32 w @ rest) = w" for w rest
    using read_le32_le32 [of w] by (simp add: read_le32_def le32_def)
  show "parse_header tiny_blob = \<lparr>h_version = 1, h_dataLength = 9,
     h_dataHash = toy_hash [1, 0, 0, 0, 1, 0, 0, 0, 255],
     h_framesCount = 1, h_canvasSize = 1, h_frameDuration = 33\<rparr>"
    by (simp add: parse_header_def tiny_blob_def length_le32 r)
  show "drop sizeof_Header tiny_blob = [1, 0, 0, 0, 1, 0, 0, 0, 255]"
    by (simp add: tiny_blob_def sizeof_Header_def length_le32)
  show "length tiny_blob = 33"
    by (simp add: tiny_blob_def length_le32)
qed

lemma tiny_payload:
  "loadFromData raw_load [1, 0, 0, 0, 1, 0, 0, 0, 255]
    = Some \<lparr>q_format = Format_Grayscale8, q_width = 1, q_height = 1, q_lines = [[255]]\<rparr>"
proof -
  have "raw_save \<lparr>q_format = Format_Grayscale8, q_width = 1, q_height = 1, q_lines = [[255]]\<rparr>
      = [1, 0, 0, 0, 1, 0, 0, 0, 255]"
    by (simp add: raw_save_def le32_def)
  moreover have "raw_load (raw_save
      \<lparr>q_format = Format_Grayscale8, q_width = 1, q_height = 1, q_lines = [[255]]\<rparr>)
    = Some \<lparr>q_format = Format_Grayscale8, q_width = 1, q_height = 1, q_lines = [[255]]\<rparr>"
    by (rule raw_round_trip) simp_all
  ultimately show ?thesis by (simp add: loadFromData_def qimage_valid_def)
qed

lemma tiny_decoded: "decoded raw_load tiny_blob = tiny_atlas"
  by (simp add: decoded_def tiny_header tiny_payload tiny_atlas_def expanded_def)

lemma FromSerialized_validated:
  assumes "atlas_allocated platform v"
  shows "FromSerialized platform png_load xxh32 data (Some v) \<noteq> Abort"
proof (cases "length data \<le> sizeof_Header")
  case True
  then show ?thesis by (simp add: FromSerialized_short)
next
  case long: False
  show ?thesis
  proof (cases "header_checks_fail xxh32 data (Some v)")
    case True
    then show ?thesis using FromSerialized_header [OF long True] by simp
  next
    case ok: False
    then have e: "v_framesCount v = h_framesCount (parse_header data)"
      "v_canvasSize v = h_canvasSize (parse_header data)"
      unfolding header_checks_fail_def Let_def by simp_all
    show ?thesis
    proof (cases "loadFromData png_load (drop sizeof_Header data)")
      case None
      then show ?thesis unfolding FromSerialized_decoded [OF long ok] by simp
    next
      case (Some g)
      show ?thesis
      proof (cases "sint (q_width g) = sint (atlas_columns (h_framesCount (parse_header data)))
            * sint (h_canvasSize (parse_header data))
          \<and> sint (q_height g) = sint (atlas_rows (h_framesCount (parse_header data)))
            * sint (h_canvasSize (parse_header data))")
        case True
        then have "q_width g = atlas_columns (v_framesCount v) * v_canvasSize v"
          "q_height g = atlas_rows (v_framesCount v) * v_canvasSize v"
          unfolding e by (simp_all add: word_product_of_sint)
        then have "image_allocated platform Format_ARGB32_Premultiplied (q_width g) (q_height g)"
          using assms by (simp add: atlas_allocated_def)
        then show ?thesis unfolding FromSerialized_decoded [OF long ok] Some by simp
      next
        case False
        then show ?thesis unfolding FromSerialized_decoded [OF long ok] Some by auto
      qed
    qed
  qed
qed

lemma serialize_returns:
  assumes "m_frameDuration cached <s 2147483647"
    and "0 <s q_width (m_image cached)" "0 <s q_height (m_image cached)"
    and "image_allocated platform Format_Grayscale8
      (q_width (m_image cached)) (q_height (m_image cached))"
  shows "serialize platform png_save xxh32 cached \<noteq> Abort"
  using serialize_bytes [OF assms(1) to_grayscale_allocated [OF assms(2-4)]] by simp

text \<open>The two blobs of large images.\<close>

lemma read_le32_append: "read_le32 (le32 w @ rest) = w"
  using read_le32_le32 [of w] by (simp add: read_le32_def le32_def)

lemma large_header:
  "parse_header large_blob = \<lparr>h_version = 1, h_dataLength = 1, h_dataHash = toy_hash [0],
     h_framesCount = 100, h_canvasSize = 4634, h_frameDuration = 33\<rparr>"
  "drop sizeof_Header large_blob = [0]"
  "length large_blob = 25"
  by (simp_all add: parse_header_def large_blob_def sizeof_Header_def length_le32 read_le32_append)

lemma tall_header:
  "parse_header tall_blob = \<lparr>h_version = 1, h_dataLength = 1, h_dataHash = toy_hash [0],
     h_framesCount = 2147483647, h_canvasSize = 1, h_frameDuration = 33\<rparr>"
  "drop sizeof_Header tall_blob = [0]"
  "length tall_blob = 25"
  by (simp_all add: parse_header_def tall_blob_def sizeof_Header_def length_le32 read_le32_append)

lemma large_loaded: "loadFromData load_large bytes = Some large_gray"
  by (simp add: loadFromData_def load_large_def qimage_valid_def large_gray_def)

lemma tall_loaded: "loadFromData load_tall bytes = Some tall_gray"
  by (simp add: loadFromData_def load_tall_def qimage_valid_def tall_gray_def)

lemma large_checks: "\<not> header_checks_fail toy_hash large_blob None"
  by (simp add: header_checks_fail_def Let_def large_header
      large_header(2) [unfolded sizeof_Header_def] kVersion_def sizeof_Header_def word_sle_eq)

lemma tall_checks: "\<not> header_checks_fail toy_hash tall_blob None"
  by (simp add: header_checks_fail_def Let_def tall_header
      tall_header(2) [unfolded sizeof_Header_def] kVersion_def sizeof_Header_def word_sle_eq)

lemma rows_of_examples:
  "sint (atlas_rows 100) = 10" "sint (atlas_rows 2147483647) = - 214748364"
  by (simp_all add: atlas_rows_def kFramesPerRow_def cdiv_def signed_divide_int_def)

lemma sless_sum:
  fixes s x z :: int32
  assumes "- 2147483648 \<le> sint x + sint z" "sint x + sint z \<le> 2147483647"
  shows "s <s x + z \<longleftrightarrow> sint s < sint x + sint z"
  using sint_add_fits32 [OF assms] by (simp add: word_sless_alt)

section \<open>Claims\<close>

subsection \<open>C1: encoding and decoding an atlas\<close>

text \<open>
  Claim C1, as amended. Take an atlas that \<open>GenerateSpoilerMess\<close> returns for a
  descriptor whose frame duration is below \<open>INT32_MAX\<close> and whose atlas size fits
  \<open>int\<close>, painted by a painter that leaves only gray pixels (the same byte in the four
  channels), and a codec that decodes the grayscale image it encoded, into 1 to
  \<open>2^32 - 1\<close> bytes. When the platform holds the grayscale copy for \<open>serialize\<close> and
  the image for \<open>FromSerialized\<close>, \<open>serialize\<close> returns, and \<open>FromSerialized\<close> with
  the validator of the atlas's frame duration, frame count and canvas size returns the
  same atlas: the same three parameters and the same image.
\<close>

theorem serialize_round_trip:
  assumes gen: "GenerateSpoilerMess platform raster random d = Returned cached"
    and gray: "gray_painter raster"
    and fd: "sint (frameDuration d) < 2147483647"
    and fits: "atlas_fits (framesCount d) (canvasSize d)"
    and enc: "image_allocated encoder Format_Grayscale8
      (q_width (m_image cached)) (q_height (m_image cached))"
    and dec: "image_allocated decoder Format_ARGB32_Premultiplied
      (q_width (m_image cached)) (q_height (m_image cached))"
    and codec: "loadFromData png_load (png_save (grayscale_of (m_image cached)))
      = Some (grayscale_of (m_image cached))"
    and len: "0 < length (png_save (grayscale_of (m_image cached)))"
      "length (png_save (grayscale_of (m_image cached))) < 2 ^ 32"
  shows "\<exists>bytes. serialize encoder png_save xxh32 cached = Returned bytes
    \<and> FromSerialized decoder png_load xxh32 bytes
        (Some \<lparr>v_frameDuration = m_frameDuration cached, v_framesCount = m_framesCount cached,
           v_canvasSize = m_canvasSize cached\<rparr>)
      = Returned (Some cached)"
proof -
  obtain sprites calls where img: "m_image cached = painted raster sprites calls
        (new_image platform (canvasSize d * atlas_columns (framesCount d))
          (canvasSize d * atlas_rows (framesCount d)) Format_ARGB32_Premultiplied 4)"
    using generate_result_form(1) [OF gen] by blast
  note c = generate_result_form(2) [OF gen]
  note f = constructed_fields [OF c]
  have "0 < min (sint (framesCount d)) 10 * sint (canvasSize d)" using f(5,7) by simp
  then have "0 < sint (atlas_columns (framesCount d) * canvasSize d)"
    using sint_atlas_width [OF f(5) f(7) fits] by simp
  then have w: "0 <s q_width (m_image cached)"
    by (simp add: word_sless_alt f(8))
  have rt: "expanded (grayscale_of (m_image cached)) = m_image cached"
    unfolding img using gray w [unfolded img] by (rule painted_round_trip)
  show ?thesis
    using c fd rt fits enc dec codec len by (rule round_trip)
qed

text \<open>
  An atlas of 4 by 2 pixels, painted as a checkerboard of opaque and half-transparent
  white, with the uncompressed codec.
\<close>

theorem serialize_round_trip_witness:
  "GenerateSpoilerMess generous_platform checker_raster zero_draws small_descriptor
     = Returned small_atlas
   \<and> gray_painter checker_raster
   \<and> sint (frameDuration small_descriptor) < 2147483647
   \<and> atlas_fits (framesCount small_descriptor) (canvasSize small_descriptor)
   \<and> image_allocated generous_platform Format_Grayscale8
       (q_width (m_image small_atlas)) (q_height (m_image small_atlas))
   \<and> image_allocated generous_platform Format_ARGB32_Premultiplied
       (q_width (m_image small_atlas)) (q_height (m_image small_atlas))
   \<and> loadFromData raw_load (raw_save (grayscale_of (m_image small_atlas)))
     = Some (grayscale_of (m_image small_atlas))
   \<and> length (raw_save (grayscale_of (m_image small_atlas))) = 16
   \<and> (\<exists>bytes. serialize generous_platform raw_save toy_hash small_atlas = Returned bytes
      \<and> FromSerialized generous_platform raw_load toy_hash bytes
          (Some \<lparr>v_frameDuration = 1000, v_framesCount = 2, v_canvasSize = 2\<rparr>)
        = Returned (Some small_atlas))"
proof -
  have fd: "sint (frameDuration small_descriptor) < 2147483647"
    by (simp add: small_descriptor_def)
  have fits: "atlas_fits (framesCount small_descriptor) (canvasSize small_descriptor)"
    using small_fits by (simp add: descriptor_fits_def)
  have mem: "image_allocated generous_platform Format_Grayscale8
       (q_width (m_image small_atlas)) (q_height (m_image small_atlas))"
    "image_allocated generous_platform Format_ARGB32_Premultiplied
       (q_width (m_image small_atlas)) (q_height (m_image small_atlas))"
    by (simp_all add: generous_platform_def)
  have len: "0 < length (raw_save (grayscale_of (m_image small_atlas)))"
    "length (raw_save (grayscale_of (m_image small_atlas))) < 2 ^ 32"
    by (simp_all add: small_atlas_codec(2))
  have v: "\<lparr>v_frameDuration = m_frameDuration small_atlas,
      v_framesCount = m_framesCount small_atlas, v_canvasSize = m_canvasSize small_atlas\<rparr>
    = \<lparr>v_frameDuration = 1000, v_framesCount = 2, v_canvasSize = 2\<rparr>"
    by (simp add: small_atlas_def)
  from serialize_round_trip [of generous_platform checker_raster zero_draws small_descriptor
      small_atlas generous_platform generous_platform raw_load raw_save toy_hash,
      OF small_atlas_generated gray_checker fd fits mem small_atlas_codec(1) len]
  show ?thesis
    unfolding v using small_atlas_generated gray_checker fd fits mem small_atlas_codec by blast
qed

text \<open>
  Claim C1 as stated fails: a descriptor with a frame duration of \<open>INT32_MAX\<close>
  satisfies every invariant and generates an atlas, and \<open>serialize\<close> aborts on it, at
  its \<open>Expects\<close> on the frame duration.
\<close>

theorem serialize_aborts_counterexample:
  "descriptor_invariants long_frame_descriptor
   \<and> GenerateSpoilerMess generous_platform blank_raster zero_draws long_frame_descriptor
     = Returned long_frame_atlas
   \<and> serialize generous_platform raw_save toy_hash long_frame_atlas = Abort"
proof -
  have "descriptor_invariants long_frame_descriptor"
    by (simp add: descriptor_invariants_def long_frame_descriptor_def example_descriptor_def
        default_descriptor_def default_consts)
  moreover have "serialize generous_platform raw_save toy_hash long_frame_atlas = Abort"
    by (simp add: serialize_def long_frame_atlas_def word_sless_alt)
  ultimately show ?thesis using long_frame_generated by simp
qed

subsection \<open>C2: when decoding returns no result\<close>

text \<open>
  Claim C2, as amended. For every byte sequence whose header holds a frame count of at
  most \<open>INT_MAX - 9\<close>, every validator (or none), every decoder, every checksum
  function and every platform, \<open>FromSerialized\<close> returns no result exactly under the
  conditions of the specification. On a platform that holds the ARGB32 image of the
  size of the payload's image it does not abort, and it returns the decoded atlas when
  none of the conditions holds.
\<close>

theorem decode_rejects_exactly:
  assumes "frames_in_range data"
  shows "(FromSerialized platform png_load xxh32 data validator = Returned None
      \<longleftrightarrow> spec_rejects png_load xxh32 data validator)
   \<and> (image_served platform png_load data \<longrightarrow>
        FromSerialized platform png_load xxh32 data validator \<noteq> Abort
        \<and> (\<not> spec_rejects png_load xxh32 data validator
           \<longrightarrow> FromSerialized platform png_load xxh32 data validator
             = Returned (Some (decoded png_load data))))"
  by (simp add: FromSerialized_result [OF assms])

text \<open>
  A blob that decodes, the same blob cut after its header, and the same blob with a
  validator of other parameters.
\<close>

theorem decode_rejects_exactly_witness:
  "frames_in_range tiny_blob \<and> image_served generous_platform raw_load tiny_blob
   \<and> \<not> spec_rejects raw_load toy_hash tiny_blob None
   \<and> FromSerialized generous_platform raw_load toy_hash tiny_blob None
     = Returned (Some tiny_atlas)
   \<and> frames_in_range (take 24 tiny_blob)
   \<and> image_served generous_platform raw_load (take 24 tiny_blob)
   \<and> spec_rejects raw_load toy_hash (take 24 tiny_blob) None
   \<and> FromSerialized generous_platform raw_load toy_hash (take 24 tiny_blob) None = Returned None
   \<and> spec_rejects raw_load toy_hash tiny_blob
       (Some \<lparr>v_frameDuration = 33, v_framesCount = 60, v_canvasSize = 100\<rparr>)
   \<and> FromSerialized generous_platform raw_load toy_hash tiny_blob
       (Some \<lparr>v_frameDuration = 33, v_framesCount = 60, v_canvasSize = 100\<rparr>) = Returned None"
proof -
  have l: "\<not> length tiny_blob \<le> sizeof_Header"
    by (simp add: tiny_header sizeof_Header_def)
  have t: "\<lceil>(1 :: real) / 10\<rceil> = 1" using ceiling_tenth [of 1] by simp
  have r: "frames_in_range tiny_blob" "frames_in_range (take 24 tiny_blob)"
    by (simp_all add: frames_in_range_def tiny_header sizeof_Header_def)
  have s: "image_served generous_platform raw_load tiny_blob"
    "image_served generous_platform raw_load (take 24 tiny_blob)"
    by (simp_all add: image_served_def generous_platform_def split: option.splits)
  have a: "\<not> spec_rejects raw_load toy_hash tiny_blob None"
    using l by (simp add: spec_rejects_def Let_def tiny_header tiny_payload kVersion_def t)
  have b: "spec_rejects raw_load toy_hash (take 24 tiny_blob) None"
    by (simp add: spec_rejects_def Let_def sizeof_Header_def)
  have c: "spec_rejects raw_load toy_hash tiny_blob
       (Some \<lparr>v_frameDuration = 33, v_framesCount = 60, v_canvasSize = 100\<rparr>)"
    by (simp add: spec_rejects_def Let_def tiny_header)
  show ?thesis
    using a b c r s
      decode_rejects_exactly [OF r(1), of generous_platform raw_load toy_hash None]
      decode_rejects_exactly [OF r(2), of generous_platform raw_load toy_hash None]
      decode_rejects_exactly [OF r(1), of generous_platform raw_load toy_hash
        "Some \<lparr>v_frameDuration = 33, v_framesCount = 60, v_canvasSize = 100\<rparr>"]
    by (simp add: tiny_decoded)
qed

text \<open>
  Claim C2 as stated fails twice. A blob of 100 frames of 4634 pixels whose payload
  decodes to a grayscale image of 46340 by 46340 pixels meets none of the conditions;
  on a platform that holds no image above \<open>INT_MAX\<close> bytes the ARGB32 image is null
  and \<open>FromSerialized\<close> writes through it: the process ends. A blob of 2147483647
  frames of 1 pixel whose payload decodes to an image of 10 by 214748365 pixels meets
  none of the conditions either, and \<open>FromSerialized\<close> returns no result: \<open>count + 9\<close>
  leaves the range of \<open>int\<close> and the rows it computes are negative.
\<close>

theorem decode_fails_counterexample:
  "\<not> spec_rejects load_large toy_hash large_blob None
   \<and> FromSerialized capped_platform load_large toy_hash large_blob None = Abort
   \<and> \<not> spec_rejects load_tall toy_hash tall_blob None
   \<and> FromSerialized generous_platform load_tall toy_hash tall_blob None = Returned None"
proof -
  have l: "\<not> length large_blob \<le> sizeof_Header" "\<not> length tall_blob \<le> sizeof_Header"
    by (simp_all add: large_header tall_header sizeof_Header_def)
  have a: "\<not> spec_rejects load_large toy_hash large_blob None"
    using l(1)
    by (simp add: spec_rejects_def Let_def large_header large_loaded kVersion_def
        large_gray_def ceiling_tenth)
  have b: "FromSerialized capped_platform load_large toy_hash large_blob None = Abort"
    unfolding FromSerialized_decoded [OF l(1) large_checks]
    by (simp add: large_header large_loaded large_gray_def sint_atlas_columns rows_of_examples
        capped_platform_def)
  have c: "\<not> spec_rejects load_tall toy_hash tall_blob None"
    using l(2)
    by (simp add: spec_rejects_def Let_def tall_header tall_loaded kVersion_def
        tall_gray_def ceiling_tenth)
  have d: "FromSerialized generous_platform load_tall toy_hash tall_blob None = Returned None"
    unfolding FromSerialized_decoded [OF l(2) tall_checks]
    by (simp add: tall_header tall_loaded tall_gray_def sint_atlas_columns rows_of_examples)
  from a b c d show ?thesis by blast
qed

subsection \<open>C3: generation and the size of the atlas\<close>

text \<open>
  Claim C3, as amended. For every descriptor that satisfies the invariants and whose
  atlas size and timeline fit the machine types, on a platform that provides the random
  buffer, the two vectors and the atlas image, \<open>GenerateSpoilerMess\<close> returns an
  atlas whose image is \<open>min(framesCount, 10) * canvasSize\<close> pixels wide and
  \<open>ceil(framesCount / 10) * canvasSize\<close> pixels high; and the constructor of
  \<open>SpoilerMessCached\<close> aborts on every image whose width or height differs from
  these values (for a frame count and a canvas size that fit).
\<close>

theorem atlas_dimensions:
  assumes "descriptor_invariants d" and "descriptor_fits d" and "platform_serves platform d"
  shows "(\<exists>a. GenerateSpoilerMess platform raster random d = Returned a
      \<and> sint (q_width (m_image a)) = min (sint (framesCount d)) 10 * sint (canvasSize d)
      \<and> sint (q_height (m_image a))
        = \<lceil>real_of_int (sint (framesCount d)) / 10\<rceil> * sint (canvasSize d))
    \<and> (\<forall>img F fd cs. atlas_fits F cs
        \<and> (sint (q_width img) \<noteq> min (sint F) 10 * sint cs
          \<or> sint (q_height img) \<noteq> \<lceil>real_of_int (sint F) / 10\<rceil> * sint cs)
        \<longrightarrow> SpoilerMessCached_new img F fd cs = Abort)"
proof
  obtain a where a: "GenerateSpoilerMess platform raster random d = Returned a"
    "q_width (m_image a) = atlas_columns (framesCount d) * canvasSize d"
    "q_height (m_image a) = atlas_rows (framesCount d) * canvasSize d"
    using valid_descriptor_returns [OF assms] by blast
  have p: "0 < sint (framesCount d)" "0 < sint (canvasSize d)"
    using assms(1) by (simp_all add: descriptor_invariants_def)
  have af: "atlas_fits (framesCount d) (canvasSize d)"
    using assms(2) by (simp add: descriptor_fits_def)
  show "\<exists>a. GenerateSpoilerMess platform raster random d = Returned a
      \<and> sint (q_width (m_image a)) = min (sint (framesCount d)) 10 * sint (canvasSize d)
      \<and> sint (q_height (m_image a))
        = \<lceil>real_of_int (sint (framesCount d)) / 10\<rceil> * sint (canvasSize d)"
    using a sint_atlas_width [OF p af] sint_atlas_height [OF p af] by (intro exI [of _ a]) simp
  show "\<forall>img F fd cs. atlas_fits F cs
        \<and> (sint (q_width img) \<noteq> min (sint F) 10 * sint cs
          \<or> sint (q_height img) \<noteq> \<lceil>real_of_int (sint F) / 10\<rceil> * sint cs)
        \<longrightarrow> SpoilerMessCached_new img F fd cs = Abort"
    using constructor_checks_size by blast
qed

text \<open>The example of the specification: 60 frames of 100 pixels give 1000 by 600.\<close>

theorem atlas_dimensions_witness:
  "descriptor_invariants example_descriptor \<and> descriptor_fits example_descriptor
   \<and> platform_serves generous_platform example_descriptor
   \<and> (\<exists>a. GenerateSpoilerMess generous_platform blank_raster zero_draws example_descriptor
        = Returned a
      \<and> sint (q_width (m_image a)) = 1000 \<and> sint (q_height (m_image a)) = 600)"
proof -
  have i: "descriptor_invariants example_descriptor" by (rule example_invariants)
  have f: "descriptor_fits example_descriptor" by (rule example_fits)
  have s: "platform_serves generous_platform example_descriptor" by (rule generous_serves)
  have c: "min (sint (framesCount example_descriptor)) 10 * sint (canvasSize example_descriptor) = 1000"
    by (simp add: example_descriptor_def default_descriptor_def default_consts)
  have r: "\<lceil>real_of_int (sint (framesCount example_descriptor)) / 10\<rceil>
      * sint (canvasSize example_descriptor) = 600"
    by (simp add: example_descriptor_def default_descriptor_def default_consts)
  from atlas_dimensions [OF i f s, of blank_raster zero_draws] i f s show ?thesis
    unfolding c r by blast
qed

text \<open>
  Claim C3 as stated fails twice. With a canvas of 300000000 pixels the descriptor
  satisfies every invariant, the width \<open>size * columns\<close> leaves the range of \<open>int\<close>, no
  image of that size exists and the constructor's size check aborts. With a canvas of
  100000000 pixels the atlas of 1000000000 by 600000000 pixels fits \<open>int\<close>; on a
  platform that holds no image above \<open>INT_MAX\<close> bytes the image is null, and the
  constructor's size check aborts again.
\<close>

theorem generation_fails_counterexample:
  "descriptor_invariants huge_canvas_descriptor
   \<and> GenerateSpoilerMess generous_platform blank_raster zero_draws huge_canvas_descriptor = Abort
   \<and> descriptor_invariants large_canvas_descriptor \<and> descriptor_fits large_canvas_descriptor
   \<and> GenerateSpoilerMess capped_platform blank_raster zero_draws large_canvas_descriptor = Abort"
proof -
  have a: "descriptor_invariants huge_canvas_descriptor"
    by (simp add: descriptor_invariants_def huge_canvas_descriptor_def example_descriptor_def
        default_descriptor_def default_consts)
  have "canvasSize huge_canvas_descriptor * atlas_columns (framesCount huge_canvas_descriptor)
      = - 1294967296"
    by (simp add: huge_canvas_descriptor_def example_descriptor_def default_descriptor_def
        default_consts atlas_columns_def smin_def kFramesPerRow_def)
  then have b: "GenerateSpoilerMess generous_platform blank_raster zero_draws
      huge_canvas_descriptor = Abort"
    by (intro generate_aborts_without_image) (simp_all add: word_sless_alt)
  have c: "descriptor_invariants large_canvas_descriptor"
    by (simp add: descriptor_invariants_def large_canvas_descriptor_def example_descriptor_def
        default_descriptor_def default_consts)
  have d: "descriptor_fits large_canvas_descriptor"
    by (simp add: descriptor_fits_def atlas_fits_def timeline_fits_def
        large_canvas_descriptor_def example_descriptor_def default_descriptor_def default_consts)
  have "canvasSize large_canvas_descriptor * atlas_columns (framesCount large_canvas_descriptor)
      = 1000000000"
    "canvasSize large_canvas_descriptor * atlas_rows (framesCount large_canvas_descriptor)
      = 600000000"
    by (simp_all add: large_canvas_descriptor_def example_descriptor_def default_descriptor_def
        default_consts atlas_columns_def atlas_rows_def smin_def kFramesPerRow_def cdiv_def
        word_sless_alt)
  then have e: "GenerateSpoilerMess capped_platform blank_raster zero_draws
      large_canvas_descriptor = Abort"
    by (intro generate_aborts_without_image) (simp_all add: capped_platform_def)
  from a b c d e show ?thesis by blast
qed

subsection \<open>C4: start offsets of the particles\<close>

text \<open>
  Claim C4, as amended. For every descriptor that satisfies the invariants and whose
  products \<open>(N - 1) * F\<close> and \<open>(N - 1) * F * D\<close> fit \<open>int\<close> and \<open>crl::time\<close>
  (\<open>N\<close> particles, \<open>F\<close> frames of duration \<open>D\<close>), the generation loop returns
  \<open>N\<close> particles, the start offset of particle \<open>k\<close> is \<open>k * F * D div N\<close>, it lies
  in \<open>[0, F * D)\<close>, and two consecutive offsets are \<open>F * D div N\<close> or one more apart:
  the offsets are evenly spaced across the loop.
\<close>

theorem particle_start_offsets:
  assumes inv: "descriptor_invariants d" and fits: "particles_fit d"
  shows "\<exists>ps. particles_loop d random 0 [] = Returned ps
    \<and> int (length ps) = sint (particlesCount d)
    \<and> (\<forall>k<length ps.
          sint (p_start (ps ! k))
            = (int k * sint (framesCount d) * sint (frameDuration d)) div sint (particlesCount d)
          \<and> 0 \<le> sint (p_start (ps ! k))
          \<and> sint (p_start (ps ! k)) < sint (framesCount d) * sint (frameDuration d))
    \<and> (\<forall>k. Suc k < length ps \<longrightarrow>
          (sint (framesCount d) * sint (frameDuration d)) div sint (particlesCount d)
            \<le> sint (p_start (ps ! Suc k)) - sint (p_start (ps ! k))
          \<and> sint (p_start (ps ! Suc k)) - sint (p_start (ps ! k))
            \<le> (sint (framesCount d) * sint (frameDuration d)) div sint (particlesCount d) + 1)"
proof -
  note i = inv [unfolded descriptor_invariants_def]
  define N where "N = sint (particlesCount d)"
  define X where "X = sint (framesCount d) * sint (frameDuration d)"
  have N: "0 < N" and X: "0 < X" using i by (simp_all add: N_def X_def)
  have "0 <s particleSpritesCount d" "0 <s canvasSize d"
    using i by (simp_all add: word_sless_alt)
  then obtain ps where ps: "particles_loop d random 0 [] = Returned ps"
    using particles_loop_returns by blast
  have st: "length ps = length ([] :: Particle list) + unat (particlesCount d - 0)
      \<and> (\<forall>k<length ps. p_start (ps ! k) = particle_start d (word_of_nat k))"
    by (rule particles_loop_starts [OF ps]) simp_all
  have "unat (particlesCount d) = nat N"
    unfolding N_def using i by (intro unat_positive) simp
  then have len: "int (length ps) = N" using st N by simp
  have val: "sint (p_start (ps ! k)) = (int k * X) div N" if "k < length ps" for k
  proof -
    have "int k < sint (particlesCount d)" using that len by (simp add: N_def)
    then have "sint (particle_start d (word_of_nat k))
      = (int k * sint (framesCount d) * sint (frameDuration d)) div sint (particlesCount d)"
      by (rule start_of_index [OF inv fits])
    then show ?thesis using st that by (simp add: N_def X_def mult.assoc)
  qed
  have lo: "0 \<le> (int k * X) div N" for k
    using N X by (simp add: pos_imp_zdiv_nonneg_iff)
  have hi: "(int k * X) div N < X" if "k < length ps" for k
  proof -
    have "int k < N" using that len by simp
    then have "int k * X < N * X" using X by (simp add: mult_strict_right_mono)
    then show ?thesis using N by (intro div_less_bound)
  qed
  have gap: "X div N \<le> (int (Suc k) * X) div N - (int k * X) div N
      \<and> (int (Suc k) * X) div N - (int k * X) div N \<le> X div N + 1" for k
  proof -
    have "int (Suc k) * X = int k * X + X" by (simp add: algebra_simps)
    then show ?thesis using gap_bounds [OF N, of "int k * X" X] by simp
  qed
  have a: "\<forall>k<length ps. sint (p_start (ps ! k)) = (int k * X) div N
      \<and> 0 \<le> sint (p_start (ps ! k)) \<and> sint (p_start (ps ! k)) < X"
    using val lo hi by simp
  have b: "\<forall>k. Suc k < length ps \<longrightarrow>
      X div N \<le> sint (p_start (ps ! Suc k)) - sint (p_start (ps ! k))
      \<and> sint (p_start (ps ! Suc k)) - sint (p_start (ps ! k)) \<le> X div N + 1"
  proof (intro allI impI)
    fix k assume k: "Suc k < length ps"
    then have "k < length ps" by simp
    then show "X div N \<le> sint (p_start (ps ! Suc k)) - sint (p_start (ps ! k))
      \<and> sint (p_start (ps ! Suc k)) - sint (p_start (ps ! k)) \<le> X div N + 1"
      using val [OF k] val [of k] gap [of k] by simp
  qed
  have m: "int k * sint (framesCount d) * sint (frameDuration d) = int k * X" for k
    by (simp add: X_def mult.assoc)
  show ?thesis
    apply (rule exI [of _ ps])
    apply (simp only: m)
    apply (fold X_def N_def)
    using ps len a b apply blast
    done
qed

text \<open>The example of the specification: 2000 particles over 60 frames of 33 ms.\<close>

theorem particle_start_offsets_witness:
  "descriptor_invariants example_descriptor \<and> particles_fit example_descriptor
   \<and> (\<exists>ps. particles_loop example_descriptor zero_draws 0 [] = Returned ps
      \<and> int (length ps) = 2000
      \<and> sint (p_start (ps ! 0)) = 0
      \<and> sint (p_start (ps ! 1000)) = 990
      \<and> sint (p_start (ps ! 1999)) = 1979)"
proof -
  have i: "descriptor_invariants example_descriptor" by (rule example_invariants)
  have f: "particles_fit example_descriptor"
    by (simp add: particles_fit_def example_descriptor_def default_descriptor_def default_consts)
  have v: "sint (particlesCount example_descriptor) = 2000"
    "sint (framesCount example_descriptor) = 60" "sint (frameDuration example_descriptor) = 33"
    by (simp_all add: example_descriptor_def default_descriptor_def default_consts)
  from particle_start_offsets [OF i f, of zero_draws] obtain ps where
    ps: "particles_loop example_descriptor zero_draws 0 [] = Returned ps"
      "int (length ps) = 2000"
      "\<forall>k<length ps. sint (p_start (ps ! k)) = (int k * 60 * 33) div 2000"
    unfolding v by blast
  have "sint (p_start (ps ! 0)) = 0" "sint (p_start (ps ! 1000)) = 990"
    "sint (p_start (ps ! 1999)) = 1979"
    using ps(2,3) by simp_all
  then show ?thesis using i f ps(1,2) by blast
qed

text \<open>
  Claim C4 as stated fails: with 50000 particles and 50000 frames the descriptor
  satisfies every invariant, \<open>index * framesCount\<close> leaves the range of \<open>int\<close> at
  particle 49999 and its start offset is negative, where \<open>i * F * D / N\<close> is 1649967.
\<close>

theorem particle_start_overflow_counterexample:
  "descriptor_invariants many_particles_descriptor
   \<and> GenerateParticle many_particles_descriptor 49999 zero_draws 149997
     = Returned \<lparr>p_start = - 1184711, p_spriteIndex = 0, p_x = 0, p_y = 0\<rparr>
   \<and> (49999 * sint (framesCount many_particles_descriptor)
        * sint (frameDuration many_particles_descriptor))
      div sint (particlesCount many_particles_descriptor) = 1649967"
proof -
  have "descriptor_invariants many_particles_descriptor"
    by (simp add: descriptor_invariants_def many_particles_descriptor_def example_descriptor_def
        default_descriptor_def default_consts)
  moreover have "particle_start many_particles_descriptor 49999 = - 1184711"
    by (simp add: particle_start_def many_particles_descriptor_def example_descriptor_def
        default_descriptor_def default_consts cdiv_def signed_divide_int_def)
  then have "GenerateParticle many_particles_descriptor 49999 zero_draws 149997
     = Returned \<lparr>p_start = - 1184711, p_spriteIndex = 0, p_x = 0, p_y = 0\<rparr>"
    by (simp add: GenerateParticle_def RandomIndex_def zero_draws_def word_sless_alt
        many_particles_descriptor_def example_descriptor_def default_descriptor_def)
  moreover have "(49999 * sint (framesCount many_particles_descriptor)
        * sint (frameDuration many_particles_descriptor))
      div sint (particlesCount many_particles_descriptor) = 1649967"
    by (simp add: many_particles_descriptor_def example_descriptor_def
        default_descriptor_def default_consts)
  ultimately show ?thesis by blast
qed

subsection \<open>C5: the descriptor checks\<close>

text \<open>
  Claim C5, as amended. \<open>GenerateSpoilerMess\<close> aborts when the frame count, the frame
  duration, the particle count, the canvas size or the sprite count is not positive,
  when the smallest particle size is not positive or exceeds the largest, and when the
  timeline \<open>framesCount * frameDuration\<close> does not exceed the lifetime
  fade-in + shown + fade-out (both as the source computes them, in \<open>crl::time\<close>). The
  sprite count is caught by the first \<open>RandomIndex\<close> call, not by a check of
  \<open>GenerateSpoilerMess\<close> itself. The three durations of the lifetime are not checked
  one by one.
\<close>

theorem checked_violations_abort:
  assumes "\<not> 0 <s framesCount d \<or> \<not> 0 <s frameDuration d \<or> \<not> 0 <s particlesCount d
    \<or> \<not> 0 <s canvasSize d \<or> \<not> 0 <s particleSpritesCount d
    \<or> particleSizeMax d < particleSizeMin d \<or> \<not> 0 < particleSizeMin d
    \<or> \<not> singleDuration d <s fullDuration d"
  shows "GenerateSpoilerMess platform raster random d = Abort"
proof (cases "0 <s particlesCount d \<and> \<not> 0 <s particleSpritesCount d")
  case True
  then have "particles_loop d random 0 [] = Abort" by (simp add: particles_loop_aborts)
  then show ?thesis by (simp add: GenerateSpoilerMess_def Let_def)
next
  case False
  then show ?thesis using assms by (auto simp: GenerateSpoilerMess_def Let_def)
qed

theorem checked_violations_abort_witness:
  "\<not> 0 <s framesCount (default_descriptor\<lparr>framesCount := 0\<rparr>)
   \<and> GenerateSpoilerMess generous_platform blank_raster zero_draws
       (default_descriptor\<lparr>framesCount := 0\<rparr>) = Abort"
proof -
  have h: "\<not> 0 <s framesCount (default_descriptor\<lparr>framesCount := 0\<rparr>)" by simp
  then show ?thesis
    using checked_violations_abort [of "default_descriptor\<lparr>framesCount := 0\<rparr>"
        generous_platform blank_raster zero_draws]
    by blast
qed

text \<open>
  Claim C5 as stated fails: the default descriptor has a shown duration of 0, which the
  invariants exclude, and generation returns an atlas for it.
\<close>

theorem unchecked_duration_counterexample:
  "particleShownDuration default_descriptor \<le>s 0
   \<and> \<not> descriptor_invariants default_descriptor
   \<and> GenerateSpoilerMess generous_platform blank_raster zero_draws default_descriptor \<noteq> Abort"
proof -
  have "particleShownDuration default_descriptor \<le>s 0"
    by (simp add: default_descriptor_def)
  moreover have "\<not> descriptor_invariants default_descriptor"
    by (simp add: descriptor_invariants_def default_descriptor_def)
  moreover have "GenerateSpoilerMess generous_platform blank_raster zero_draws
      default_descriptor \<noteq> Abort"
    using default_descriptor_returns [OF generous_serves, of blank_raster zero_draws] by auto
  ultimately show ?thesis by blast
qed

subsection \<open>C6: the frame accessors\<close>

text \<open>
  Claim C6, as amended. For every atlas that passed its constructor and every clock
  value that is not negative, the accessor by time returns the frame of index
  \<open>(now div frameDuration) mod framesCount\<close>; and for every index in
  \<open>[0, framesCount)\<close> the accessor by index returns the atlas image with the rectangle
  of size \<open>canvasSize\<close> by \<open>canvasSize\<close> whose corner is \<open>canvasSize\<close> times the
  column \<open>index mod columns\<close> and the row \<open>index div columns\<close>,
  \<open>columns = min(framesCount, 10)\<close>, the products taken in \<open>int\<close>. When the atlas size
  fits \<open>int\<close>, the coordinates are the mathematical products and the rectangle lies
  within the image.
\<close>

theorem frame_accessors:
  assumes "SpoilerMessCached_new img F fd cs = Returned cached" and "0 \<le> sint now"
  shows "frame_now cached now
      = frame cached (word_of_int ((sint now div sint fd) mod sint F))
    \<and> (\<forall>index. 0 \<le> sint index \<and> sint index < sint F \<longrightarrow>
          f_image (frame cached index) = img
          \<and> r_x (f_source (frame cached index))
            = word_of_int (sint index mod min (sint F) 10) * cs
          \<and> r_y (f_source (frame cached index))
            = word_of_int (sint index div min (sint F) 10) * cs
          \<and> r_width (f_source (frame cached index)) = cs
          \<and> r_height (f_source (frame cached index)) = cs
          \<and> (atlas_fits F cs \<longrightarrow>
                sint (r_x (f_source (frame cached index)))
                  = (sint index mod min (sint F) 10) * sint cs
                \<and> sint (r_y (f_source (frame cached index)))
                  = (sint index div min (sint F) 10) * sint cs
                \<and> rect_within (f_source (frame cached index)) img))"
proof (intro conjI allI impI)
  note f = constructed_fields [OF assms(1)]
  show "frame_now cached now = frame cached (word_of_int ((sint now div sint fd) mod sint F))"
    unfolding frame_now_def f(2) f(3)
    using frame_index_now [OF assms(2) f(6) f(5)] by simp
next
  fix index :: int32
  assume i: "0 \<le> sint index \<and> sint index < sint F"
  note f = constructed_fields [OF assms(1)]
  have fr: "frame cached index =
    \<lparr>f_image = img,
     f_source = \<lparr>r_x = word_of_int (sint index mod min (sint F) 10) * cs,
       r_y = word_of_int (sint index div min (sint F) 10) * cs,
       r_width = cs, r_height = cs\<rparr>\<rparr>"
    using frame_rect [of index cached] i unfolding f(1) f(2) f(4) by simp
  show "f_image (frame cached index) = img"
    "r_x (f_source (frame cached index)) = word_of_int (sint index mod min (sint F) 10) * cs"
    "r_y (f_source (frame cached index)) = word_of_int (sint index div min (sint F) 10) * cs"
    "r_width (f_source (frame cached index)) = cs"
    "r_height (f_source (frame cached index)) = cs"
    by (simp_all add: fr)
  assume a: "atlas_fits F cs"
  from i have i': "0 \<le> sint index" "sint index < sint F" by simp_all
  show "sint (r_x (f_source (frame cached index))) = (sint index mod min (sint F) 10) * sint cs"
    "sint (r_y (f_source (frame cached index))) = (sint index div min (sint F) 10) * sint cs"
    using frame_within_atlas(1,2) [OF assms(1) i' a] by simp_all
  show "rect_within (f_source (frame cached index)) img"
    using frame_within_atlas(3) [OF assms(1) i' a] f(1) by simp
qed

theorem frame_accessors_witness:
  "SpoilerMessCached_new (m_image default_atlas) kDefaultFramesCount kDefaultFrameDuration
     kDefaultCanvasSize = Returned default_atlas
   \<and> frame_now default_atlas 1000 = frame default_atlas 30
   \<and> f_source (frame default_atlas 47)
     = \<lparr>r_x = 700, r_y = 400, r_width = 100, r_height = 100\<rparr>
   \<and> rect_within (f_source (frame default_atlas 47)) (m_image default_atlas)"
proof -
  note c = default_atlas_constructed
  have n: "(0 :: int) \<le> sint (1000 :: crl_time)" by simp
  have fits: "atlas_fits kDefaultFramesCount kDefaultCanvasSize"
    by (simp add: atlas_fits_def default_consts)
  have i: "0 \<le> sint (47 :: int32) \<and> sint (47 :: int32) < sint kDefaultFramesCount"
    by (simp add: default_consts)
  from frame_accessors [OF c n] have
    a: "frame_now default_atlas 1000 = frame default_atlas
        (word_of_int ((sint (1000 :: crl_time) div sint kDefaultFrameDuration)
          mod sint kDefaultFramesCount))"
    and b: "\<forall>index. 0 \<le> sint index \<and> sint index < sint kDefaultFramesCount \<longrightarrow>
          f_image (frame default_atlas index) = m_image default_atlas
          \<and> r_x (f_source (frame default_atlas index))
            = word_of_int (sint index mod min (sint kDefaultFramesCount) 10) * kDefaultCanvasSize
          \<and> r_y (f_source (frame default_atlas index))
            = word_of_int (sint index div min (sint kDefaultFramesCount) 10) * kDefaultCanvasSize
          \<and> r_width (f_source (frame default_atlas index)) = kDefaultCanvasSize
          \<and> r_height (f_source (frame default_atlas index)) = kDefaultCanvasSize
          \<and> (atlas_fits kDefaultFramesCount kDefaultCanvasSize \<longrightarrow>
                sint (r_x (f_source (frame default_atlas index)))
                  = (sint index mod min (sint kDefaultFramesCount) 10) * sint kDefaultCanvasSize
                \<and> sint (r_y (f_source (frame default_atlas index)))
                  = (sint index div min (sint kDefaultFramesCount) 10) * sint kDefaultCanvasSize
                \<and> rect_within (f_source (frame default_atlas index)) (m_image default_atlas))"
    by blast+
  have "frame_now default_atlas 1000 = frame default_atlas 30"
    using a by (simp add: default_consts)
  moreover from b i fits have
    "r_x (f_source (frame default_atlas 47)) = 700"
    "r_y (f_source (frame default_atlas 47)) = 400"
    "r_width (f_source (frame default_atlas 47)) = 100"
    "r_height (f_source (frame default_atlas 47)) = 100"
    "rect_within (f_source (frame default_atlas 47)) (m_image default_atlas)"
    by (simp_all add: default_consts)
  ultimately show ?thesis using c by (cases "f_source (frame default_atlas 47)") simp
qed

text \<open>
  Claim C6 as stated fails twice. An image of 4 by 429496730 pixels passes the
  constructor for 10 frames of 429496730 pixels; the rectangle of frame 5 starts at
  \<open>5 * 429496730\<close>, which is -2147483646 in \<open>int\<close>, outside the image. And for a
  clock value of -1000 the division and the remainder of C++ give the index -30, not
  \<open>(-1000 div 33) mod 60 = 29\<close>.
\<close>

theorem frame_outside_atlas_counterexample:
  "SpoilerMessCached_new thin_image 10 33 429496730 = Returned thin_atlas
   \<and> 0 \<le> sint (5 :: int32) \<and> sint (5 :: int32) < sint (m_framesCount thin_atlas)
   \<and> f_source (frame thin_atlas 5)
     = \<lparr>r_x = - 2147483646, r_y = 0, r_width = 429496730, r_height = 429496730\<rparr>
   \<and> \<not> rect_within (f_source (frame thin_atlas 5)) (m_image thin_atlas)
   \<and> (- 1000 div 33) mod 60 = (29 :: int)
   \<and> frame_now default_atlas (- 1000) = frame default_atlas (- 30)
   \<and> frame default_atlas (- 30) \<noteq> frame default_atlas 29"
proof -
  have a: "SpoilerMessCached_new thin_image 10 33 429496730 = Returned thin_atlas"
    by (simp add: SpoilerMessCached_new_def thin_image_def thin_atlas_def atlas_columns_def
        atlas_rows_def smin_def kFramesPerRow_def cdiv_def word_sless_alt)
  have b: "f_source (frame thin_atlas 5)
     = \<lparr>r_x = - 2147483646, r_y = 0, r_width = 429496730, r_height = 429496730\<rparr>"
    by (simp add: frame_def Let_def thin_atlas_def kFramesPerRow_def cdiv_def)
  have c: "\<not> rect_within (f_source (frame thin_atlas 5)) (m_image thin_atlas)"
    unfolding b by (simp add: rect_within_def)
  have d: "frame_now default_atlas (- 1000) = frame default_atlas (- 30)"
    by (simp add: frame_now_def default_atlas_def default_consts cdiv_def crem_def
        signed_divide_int_def signed_modulo_int_def)
  have e: "frame default_atlas (- 30) \<noteq> frame default_atlas 29"
    by (simp add: frame_def Let_def default_atlas_def default_consts kFramesPerRow_def cdiv_def
        signed_divide_int_def)
  from a b c d e show ?thesis by (simp add: thin_atlas_def)
qed

subsection \<open>C7: copies at the far edges of a tile\<close>

text \<open>
  Claim C7, as amended. When a particle is rendered (its local time lies strictly
  between 0 and the lifetime) into a tile of positive size, and \<open>x + spriteSize\<close> and
  \<open>y + spriteSize\<close> are within \<open>int\<close>, the \<open>drawImage\<close> calls are: the sprite at its
  origin; a copy one tile width to the left exactly when \<open>x + spriteSize\<close> exceeds the
  tile size; a copy one tile height up exactly when \<open>y + spriteSize\<close> exceeds it; a copy
  shifted both ways exactly when both do. No position is drawn twice and no copy is
  shifted to the right or down.
\<close>

theorem edge_wrap_copies:
  assumes rendered: "0 <s time" "time <s singleDuration d"
    and tile: "0 <s canvasSize d"
    and fit: "sums_fit d p"
  shows "draw_positions (paintOneAt d p time)
      = [(p_x p, p_y p, p_spriteIndex p)]
        @ (if sint (canvasSize d) < sint (p_x p) + sint (spriteSize d)
           then [(p_x p - canvasSize d, p_y p, p_spriteIndex p)] else [])
        @ (if sint (canvasSize d) < sint (p_y p) + sint (spriteSize d)
           then [(p_x p, p_y p - canvasSize d, p_spriteIndex p)] else [])
        @ (if sint (canvasSize d) < sint (p_x p) + sint (spriteSize d)
              \<and> sint (canvasSize d) < sint (p_y p) + sint (spriteSize d)
           then [(p_x p - canvasSize d, p_y p - canvasSize d, p_spriteIndex p)] else [])
    \<and> distinct (draw_positions (paintOneAt d p time))
    \<and> (\<forall>(x, y, sprite) \<in> set (draw_positions (paintOneAt d p time)).
          x \<noteq> p_x p + canvasSize d \<and> y \<noteq> p_y p + canvasSize d)"
proof -
  have r: "\<not> (time \<le>s 0 \<or> singleDuration d \<le>s time)"
    using rendered by (simp add: word_sless_alt word_sle_eq)
  have sx: "canvasSize d <s p_x p + spriteSize d
      \<longleftrightarrow> sint (canvasSize d) < sint (p_x p) + sint (spriteSize d)"
    using fit unfolding sums_fit_def by (intro sless_sum) simp_all
  have sy: "canvasSize d <s p_y p + spriteSize d
      \<longleftrightarrow> sint (canvasSize d) < sint (p_y p) + sint (spriteSize d)"
    using fit unfolding sums_fit_def by (intro sless_sum) simp_all
  have n: "canvasSize d + canvasSize d \<noteq> 0" "canvasSize d \<noteq> 0"
    using double_nonzero [OF tile] by simp_all
  have m: "a - canvasSize d \<noteq> a + canvasSize d" "a \<noteq> a + canvasSize d"
    "a - canvasSize d \<noteq> a" for a
  proof -
    show "a - canvasSize d \<noteq> a + canvasSize d"
    proof
      assume "a - canvasSize d = a + canvasSize d"
      then have "(a - canvasSize d) - (a - canvasSize d) = (a + canvasSize d) - (a - canvasSize d)"
        by simp
      then have "0 = canvasSize d + canvasSize d" by simp
      then show False using n(1) by simp
    qed
    show "a \<noteq> a + canvasSize d" using n(2) by simp
    show "a - canvasSize d \<noteq> a" using n(2) by simp
  qed
  show ?thesis
    using r m by (simp add: paintOneAt_def Let_def sx sy)
qed

theorem edge_wrap_copies_witness:
  "0 <s (80 :: crl_time) \<and> 80 <s singleDuration example_descriptor
   \<and> 0 <s canvasSize example_descriptor
   \<and> sums_fit example_descriptor example_particle
   \<and> sums_fit example_descriptor (example_particle\<lparr>p_y := 97\<rparr>)
   \<and> sums_fit example_descriptor (example_particle\<lparr>p_x := 96\<rparr>)
   \<and> draw_positions (paintOneAt example_descriptor example_particle 80)
     = [(98, 50, 3), (- 2, 50, 3)]
   \<and> draw_positions (paintOneAt example_descriptor (example_particle\<lparr>p_y := 97\<rparr>) 80)
     = [(98, 97, 3), (- 2, 97, 3), (98, - 3, 3), (- 2, - 3, 3)]
   \<and> draw_positions (paintOneAt example_descriptor (example_particle\<lparr>p_x := 96\<rparr>) 80)
     = [(96, 50, 3)]"
proof -
  have h: "0 <s (80 :: crl_time)" "80 <s singleDuration example_descriptor"
    "0 <s canvasSize example_descriptor"
    by (simp_all add: example_durations example_canvas word_sless_alt)
  have f: "sums_fit example_descriptor example_particle"
    "sums_fit example_descriptor (example_particle\<lparr>p_y := 97\<rparr>)"
    "sums_fit example_descriptor (example_particle\<lparr>p_x := 96\<rparr>)"
    by (simp_all add: sums_fit_def example_canvas example_particle_def)
  show ?thesis
    using h f edge_wrap_copies [OF h f(1)] edge_wrap_copies [OF h f(2)]
      edge_wrap_copies [OF h f(3)]
    by (simp add: example_canvas example_particle_def)
qed

text \<open>
  Claim C7 as stated fails: for a largest particle size of 2147483645 the sprite is
  2147483647 pixels wide; from the origin (98, 50) both \<open>x + spriteSize\<close> and
  \<open>y + spriteSize\<close> exceed the tile size of 100, but they leave the range of \<open>int\<close>, the
  sums the source compares are negative, and no copy is drawn.
\<close>

theorem edge_wrap_overflow_counterexample:
  "descriptor_invariants wide_sprite_descriptor
   \<and> 0 <s (80 :: crl_time) \<and> 80 <s singleDuration wide_sprite_descriptor
   \<and> sint (spriteSize wide_sprite_descriptor) = 2147483647
   \<and> sint (canvasSize wide_sprite_descriptor)
     < sint (p_x example_particle) + sint (spriteSize wide_sprite_descriptor)
   \<and> sint (canvasSize wide_sprite_descriptor)
     < sint (p_y example_particle) + sint (spriteSize wide_sprite_descriptor)
   \<and> draw_positions (paintOneAt wide_sprite_descriptor example_particle 80) = [(98, 50, 3)]"
proof -
  have a: "descriptor_invariants wide_sprite_descriptor"
    by (simp add: descriptor_invariants_def wide_sprite_descriptor_def example_descriptor_def
        default_descriptor_def default_consts)
  have s: "spriteSize wide_sprite_descriptor = 2147483647"
    by (simp add: spriteSize_def int_of_float64_def wide_sprite_descriptor_def)
  have d: "singleDuration wide_sprite_descriptor = 500" "canvasSize wide_sprite_descriptor = 100"
    by (simp_all add: singleDuration_def wide_sprite_descriptor_def example_descriptor_def
        default_descriptor_def default_consts)
  have p: "draw_positions (paintOneAt wide_sprite_descriptor example_particle 80) = [(98, 50, 3)]"
    by (simp add: paintOneAt_def Let_def s d example_particle_def word_sless_alt word_sle_eq)
  from a s d p show ?thesis by (simp add: example_particle_def word_sless_alt)
qed

subsection \<open>C8: the size ceiling of the cache file\<close>

text \<open>
  Claim C8. \<open>ReadDefaultMask\<close> reads no file above 5 MiB: such a file gives no result
  and is neither read nor decoded. \<open>WriteDefaultMask\<close> writes no blob above 5 MiB. A
  missing folder or a file that does not open gives no result. \<open>ReadDefaultMask\<close>
  aborts only where \<open>FromSerialized\<close> does on the contents of the file, which it does
  not when the platform holds the image of the atlas the validator describes.
  \<open>WriteDefaultMask\<close> returns whatever the folder and the file do, given an atlas
  that \<open>serialize\<close> accepts: one whose frame duration is below \<open>INT32_MAX\<close> and whose
  grayscale copy the platform holds.
\<close>

theorem cache_size_ceiling:
  "(\<forall>event \<in> set (snd (ReadDefaultMask platform png_load xxh32 env validator)).
      \<forall>bytes. event = ReadAll bytes \<longrightarrow> length bytes \<le> 5 * 1024 * 1024)
   \<and> (\<forall>content. cache_file env = Some content \<and> 5 * 1024 * 1024 < length content
        \<and> emojiCacheFolder env \<noteq> [] \<longrightarrow>
        ReadDefaultMask platform png_load xxh32 env validator
          = (Returned None, [OpenRead (DefaultMaskCachePath (DefaultMaskCacheFolder env))]))
   \<and> (\<forall>event \<in> set (snd (WriteDefaultMask platform png_save xxh32 env cached)).
        \<forall>bytes. event = Write bytes \<longrightarrow> length bytes \<le> 5 * 1024 * 1024)
   \<and> (fst (ReadDefaultMask platform png_load xxh32 env validator) = Abort \<longrightarrow>
        (\<exists>content. cache_file env = Some content
          \<and> FromSerialized platform png_load xxh32 content validator = Abort))
   \<and> (\<forall>v. validator = Some v \<and> atlas_allocated platform v \<longrightarrow>
        fst (ReadDefaultMask platform png_load xxh32 env validator) \<noteq> Abort)
   \<and> (emojiCacheFolder env = [] \<or> cache_file env = None \<longrightarrow>
        fst (ReadDefaultMask platform png_load xxh32 env validator) = Returned None)
   \<and> (serialize platform png_save xxh32 cached \<noteq> Abort \<longrightarrow>
        fst (WriteDefaultMask platform png_save xxh32 env cached) = Returned ())
   \<and> (m_frameDuration cached <s 2147483647
        \<and> 0 <s q_width (m_image cached) \<and> 0 <s q_height (m_image cached)
        \<and> image_allocated platform Format_Grayscale8
          (q_width (m_image cached)) (q_height (m_image cached)) \<longrightarrow>
        fst (WriteDefaultMask platform png_save xxh32 env cached) = Returned ())"
proof (intro conjI)
  show "\<forall>event \<in> set (snd (ReadDefaultMask platform png_load xxh32 env validator)).
      \<forall>bytes. event = ReadAll bytes \<longrightarrow> length bytes \<le> 5 * 1024 * 1024"
    by (auto simp: ReadDefaultMask_def Let_def kMaxCacheSize_def split: option.splits)
  show "\<forall>content. cache_file env = Some content \<and> 5 * 1024 * 1024 < length content
        \<and> emojiCacheFolder env \<noteq> [] \<longrightarrow>
        ReadDefaultMask platform png_load xxh32 env validator
          = (Returned None, [OpenRead (DefaultMaskCachePath (DefaultMaskCacheFolder env))])"
    by (auto simp: ReadDefaultMask_def Let_def kMaxCacheSize_def DefaultMaskCacheFolder_def)
  show "\<forall>event \<in> set (snd (WriteDefaultMask platform png_save xxh32 env cached)).
        \<forall>bytes. event = Write bytes \<longrightarrow> length bytes \<le> 5 * 1024 * 1024"
    by (auto simp: WriteDefaultMask_def Let_def kMaxCacheSize_def split: outcome.splits)
  show "fst (ReadDefaultMask platform png_load xxh32 env validator) = Abort \<longrightarrow>
        (\<exists>content. cache_file env = Some content
          \<and> FromSerialized platform png_load xxh32 content validator = Abort)"
    by (auto simp: ReadDefaultMask_def Let_def split: option.splits if_splits)
  show "\<forall>v. validator = Some v \<and> atlas_allocated platform v \<longrightarrow>
        fst (ReadDefaultMask platform png_load xxh32 env validator) \<noteq> Abort"
    by (auto simp: ReadDefaultMask_def Let_def FromSerialized_validated split: option.splits)
  show "emojiCacheFolder env = [] \<or> cache_file env = None \<longrightarrow>
        fst (ReadDefaultMask platform png_load xxh32 env validator) = Returned None"
    by (auto simp: ReadDefaultMask_def Let_def DefaultMaskCacheFolder_def)
  show w: "serialize platform png_save xxh32 cached \<noteq> Abort \<longrightarrow>
        fst (WriteDefaultMask platform png_save xxh32 env cached) = Returned ()"
    by (auto simp: WriteDefaultMask_def Let_def split: outcome.splits)
  show "m_frameDuration cached <s 2147483647
        \<and> 0 <s q_width (m_image cached) \<and> 0 <s q_height (m_image cached)
        \<and> image_allocated platform Format_Grayscale8
          (q_width (m_image cached)) (q_height (m_image cached)) \<longrightarrow>
        fst (WriteDefaultMask platform png_save xxh32 env cached) = Returned ()"
    using w serialize_returns [of cached platform png_save xxh32] by blast
qed

theorem cache_size_ceiling_witness:
  "cache_file oversized_cache = Some (replicate 5242881 0)
   \<and> 5 * 1024 * 1024 < length (replicate 5242881 (0 :: byte))
   \<and> ReadDefaultMask generous_platform raw_load toy_hash oversized_cache (Some default_validator)
     = (Returned None, [OpenRead ''/cache/emoji/spoiler/mask''])
   \<and> atlas_allocated generous_platform default_validator
   \<and> fst (ReadDefaultMask generous_platform raw_load toy_hash
       (oversized_cache\<lparr>cache_file := Some tiny_blob\<rparr>) (Some default_validator)) \<noteq> Abort
   \<and> serialize generous_platform raw_save toy_hash default_atlas \<noteq> Abort
   \<and> fst (WriteDefaultMask generous_platform raw_save toy_hash
       (oversized_cache\<lparr>mkpath_succeeds := False\<rparr>) default_atlas) = Returned ()
   \<and> fst (WriteDefaultMask generous_platform raw_save toy_hash
       (oversized_cache\<lparr>open_for_write_succeeds := False\<rparr>) default_atlas) = Returned ()
   \<and> fst (ReadDefaultMask generous_platform raw_load toy_hash
       (oversized_cache\<lparr>cache_file := None\<rparr>) (Some default_validator)) = Returned None"
proof -
  have c: "cache_file oversized_cache = Some (replicate 5242881 0)"
    "emojiCacheFolder oversized_cache \<noteq> []"
    "DefaultMaskCachePath (DefaultMaskCacheFolder oversized_cache) = ''/cache/emoji/spoiler/mask''"
    by (simp_all add: oversized_cache_def DefaultMaskCachePath_def DefaultMaskCacheFolder_def)
  have l: "5 * 1024 * 1024 < length (replicate 5242881 (0 :: byte))"
    by simp
  have a: "atlas_allocated generous_platform default_validator"
    by (simp add: atlas_allocated_def generous_platform_def)
  have d: "serialize generous_platform raw_save toy_hash default_atlas \<noteq> Abort"
    by (rule default_atlas_serialized)
  have n: "cache_file (oversized_cache\<lparr>cache_file := None\<rparr>) = None" by simp
  show ?thesis
    using c l a d n
      cache_size_ceiling [of generous_platform raw_load toy_hash oversized_cache
        "Some default_validator" raw_save default_atlas]
      cache_size_ceiling [of generous_platform raw_load toy_hash
        "oversized_cache\<lparr>cache_file := Some tiny_blob\<rparr>" "Some default_validator"
        raw_save default_atlas]
      cache_size_ceiling [of generous_platform raw_load toy_hash
        "oversized_cache\<lparr>mkpath_succeeds := False\<rparr>" "Some default_validator"
        raw_save default_atlas]
      cache_size_ceiling [of generous_platform raw_load toy_hash
        "oversized_cache\<lparr>open_for_write_succeeds := False\<rparr>" "Some default_validator"
        raw_save default_atlas]
      cache_size_ceiling [of generous_platform raw_load toy_hash
        "oversized_cache\<lparr>cache_file := None\<rparr>" "Some default_validator"
        raw_save default_atlas]
    by simp
qed

subsection \<open>C10: one phase a frame\<close>

text \<open>
  Claim C10. When the timeline is longer than one lifetime, at most one of the two local
  phases \<open>now - start\<close> and \<open>now + fullDuration - start\<close> lies strictly between 0
  and the lifetime, for every start offset and every sample time; so \<open>paintOne\<close> paints
  a particle (with its edge copies) at most once a frame.
\<close>

theorem particle_drawn_once:
  assumes "singleDuration d <s fullDuration d"
  shows "\<not> ((0 <s now - p_start p \<and> now - p_start p <s singleDuration d)
        \<and> (0 <s now + fullDuration d - p_start p
          \<and> now + fullDuration d - p_start p <s singleDuration d))
    \<and> (paintOne d p now = paintOneAt d p (now - p_start p)
      \<or> paintOne d p now = paintOneAt d p (now + fullDuration d - p_start p))"
proof -
  have e: "now + fullDuration d - p_start p = (now - p_start p) + fullDuration d" by simp
  have x: "\<not> ((0 <s now - p_start p \<and> now - p_start p <s singleDuration d)
        \<and> (0 <s now + fullDuration d - p_start p
          \<and> now + fullDuration d - p_start p <s singleDuration d))"
    unfolding e by (rule phases_exclusive [OF assms])
  then have "paintOneAt d p (now - p_start p) = []
      \<or> paintOneAt d p (now + fullDuration d - p_start p) = []"
    by (simp only: paintOneAt_Nil_iff) blast
  then have "paintOne d p now = paintOneAt d p (now - p_start p)
      \<or> paintOne d p now = paintOneAt d p (now + fullDuration d - p_start p)"
    by (auto simp: paintOne_def)
  with x show ?thesis by blast
qed

theorem particle_drawn_once_witness:
  "singleDuration example_descriptor <s fullDuration example_descriptor
   \<and> paintOneAt example_descriptor example_particle (0 - p_start example_particle) = []
   \<and> paintOne example_descriptor example_particle 0
     = paintOneAt example_descriptor example_particle
         (0 + fullDuration example_descriptor - p_start example_particle)
   \<and> draw_positions (paintOne example_descriptor example_particle 0) = [(98, 50, 3), (- 2, 50, 3)]"
proof -
  have h: "singleDuration example_descriptor <s fullDuration example_descriptor"
    by (simp add: example_durations)
  have n: "paintOneAt example_descriptor example_particle (0 - p_start example_particle) = []"
    by (simp add: paintOneAt_Nil_iff example_particle_def example_durations word_sless_alt)
  note c = example_canvas
  have s: "draw_positions (paintOneAt example_descriptor example_particle
      (0 + fullDuration example_descriptor - p_start example_particle)) = [(98, 50, 3), (- 2, 50, 3)]"
    by (simp add: paintOneAt_def Let_def example_particle_def example_durations c
        word_sless_alt word_sle_eq)
  from particle_drawn_once [OF h, of 0 example_particle] n s h show ?thesis
    by (auto simp: paintOne_def)
qed


end
